theory Spec2Isabelle
  imports Complex_Main
begin

section \<open>Errors and NumPy scalars\<close>

text \<open>
  The exceptions the training script can raise by itself (a failed \<open>assert\<close>, a
  method called on \<open>None\<close>, an unbound local name, an operator applied to
  \<open>None\<close>, a NumPy reduction or assignment that has no result). Errors are
  values: a fallible operation returns \<open>py_error + 'a\<close>, with \<open>Inl\<close> for the
  exception.
\<close>

datatype py_error =
  AssertionError | AttributeError | UnboundLocalError | TypeError | ValueError

text \<open>
  An epoch loss is a NumPy double. The loop of \<open>train_model\<close> only tests it for
  NaN, subtracts two of them and compares; these three operations are modelled with
  their IEEE special cases (NaN and both infinities). A finite double is carried by the
  real number it denotes; rounding of a finite difference is not modelled, so the model
  computes the difference of the program wherever that difference is a double itself
  (as between small integers).
\<close>

datatype npfloat = NaN | NInf | Fin real | PInf

fun isnan :: "npfloat \<Rightarrow> bool" where
  "isnan NaN = True"
| "isnan _ = False"

text \<open>\<open>fsub a b\<close> is \<open>a - b\<close>.\<close>

fun fsub :: "npfloat \<Rightarrow> npfloat \<Rightarrow> npfloat" where
  "fsub NaN _ = NaN"
| "fsub _ NaN = NaN"
| "fsub PInf PInf = NaN"
| "fsub NInf NInf = NaN"
| "fsub PInf _ = PInf"
| "fsub NInf _ = NInf"
| "fsub _ PInf = NInf"
| "fsub _ NInf = PInf"
| "fsub (Fin a) (Fin b) = Fin (a - b)"

text \<open>\<open>flt a b\<close> is \<open>a < b\<close> and \<open>fle a b\<close> is \<open>a <= b\<close>; both are false on NaN.\<close>

fun flt :: "npfloat \<Rightarrow> npfloat \<Rightarrow> bool" where
  "flt NaN _ = False"
| "flt _ NaN = False"
| "flt _ NInf = False"
| "flt NInf _ = True"
| "flt PInf _ = False"
| "flt _ PInf = True"
| "flt (Fin a) (Fin b) = (a < b)"

fun fle :: "npfloat \<Rightarrow> npfloat \<Rightarrow> bool" where
  "fle NaN _ = False"
| "fle _ NaN = False"
| "fle NInf _ = True"
| "fle _ PInf = True"
| "fle _ NInf = False"
| "fle PInf _ = False"
| "fle (Fin a) (Fin b) = (a \<le> b)"

text \<open>\<open>np.maximum\<close>: NaN if either argument is NaN.\<close>

definition fmax :: "npfloat \<Rightarrow> npfloat \<Rightarrow> npfloat" where
  "fmax a b = (if isnan a \<or> isnan b then NaN else if flt a b then b else a)"

text \<open>
  \<open>np.diff(a)\<close> on a one-dimensional array: \<open>out[i] = a[i+1] - a[i]\<close>; an array of
  fewer than two entries gives the empty array.
\<close>

fun np_diff :: "npfloat list \<Rightarrow> npfloat list" where
  "np_diff (a # b # xs) = fsub b a # np_diff (b # xs)"
| "np_diff _ = []"

text \<open>
  \<open>np.max(a)\<close>: the maximum reduction, which propagates NaN and raises ValueError on
  an array of size zero (the reduction has no identity).
\<close>

fun np_max :: "npfloat list \<Rightarrow> py_error + npfloat" where
  "np_max [] = Inl ValueError"
| "np_max (x # xs) = Inr (foldl fmax x xs)"

section \<open>The epoch loop of \<open>train_model\<close>\<close>

text \<open>
  The configuration values the epoch loop reads. \<open>num_epochs\<close> and
  \<open>early_stop_hist_len\<close> are Python integers.
\<close>

record train_config =
  num_epochs :: int
  early_stopping :: bool
  early_stop_hist_len :: int
  early_stop_min_delta :: npfloat

text \<open>
  The early-stopping block (the body of \<open>if early_stopping:\<close>). It is given the new
  validation loss and the history list, and returns the new history together with the
  decision: \<open>True\<close> is the \<open>break\<close>. \<open>hist[:-1]\<close> is \<open>butlast hist\<close> (empty for
  the empty list).
\<close>

definition early_stop_check ::
  "int \<Rightarrow> npfloat \<Rightarrow> npfloat \<Rightarrow> npfloat list \<Rightarrow> py_error + (bool \<times> npfloat list)" where
  "early_stop_check hist_len min_delta val_epoch_loss val_epoch_loss_hist =
     (if int (length val_epoch_loss_hist) < hist_len - 1
      then Inr (False, val_epoch_loss # val_epoch_loss_hist)
      else
        (let hist' = val_epoch_loss # butlast val_epoch_loss_hist in
         case np_max (np_diff hist') of
           Inl e \<Rightarrow> Inl e
         | Inr best_delta \<Rightarrow> Inr (flt best_delta min_delta, hist')))"

text \<open>
  Why the loop ended, and what it leaves behind: the number of epochs that were run
  (each of them trained, validated and saved a checkpoint) and the history list.
\<close>

datatype stop_reason = EpochsExhausted | LossesNaN | NotImproving

record train_outcome =
  epochs_run :: nat
  reason :: stop_reason
  final_hist :: "npfloat list"

text \<open>
  The loop \<open>for epoch in range(num_epochs)\<close>. The two calls of \<open>run_epoch\<close> and the
  \<open>np.nanmean\<close> of their batch losses depend on the network and the data; the loop
  reads only the two means, so they are given as \<open>losses epoch = (train_epoch_loss,
  val_epoch_loss)\<close>. The third argument counts the epochs still to run.
\<close>

fun epoch_loop ::
  "train_config \<Rightarrow> (nat \<Rightarrow> npfloat \<times> npfloat) \<Rightarrow> nat \<Rightarrow> nat \<Rightarrow> npfloat list
     \<Rightarrow> py_error + train_outcome" where
  "epoch_loop cfg losses epoch 0 hist =
     Inr \<lparr>epochs_run = epoch, reason = EpochsExhausted, final_hist = hist\<rparr>"
| "epoch_loop cfg losses epoch (Suc n) hist =
     (let train_epoch_loss = fst (losses epoch); val_epoch_loss = snd (losses epoch) in
      if isnan train_epoch_loss \<and> isnan val_epoch_loss
      then Inr \<lparr>epochs_run = Suc epoch, reason = LossesNaN, final_hist = hist\<rparr>
      else if early_stopping cfg
      then
        (case early_stop_check (early_stop_hist_len cfg) (early_stop_min_delta cfg)
                val_epoch_loss hist of
           Inl e \<Rightarrow> Inl e
         | Inr (stop, hist') \<Rightarrow>
             if stop
             then Inr \<lparr>epochs_run = Suc epoch, reason = NotImproving, final_hist = hist'\<rparr>
             else epoch_loop cfg losses (Suc epoch) n hist')
      else epoch_loop cfg losses (Suc epoch) n hist)"

text \<open>
  \<open>train_model\<close> up to the end of the epoch loop: the history starts empty and
  \<open>range(num_epochs)\<close> is empty for a negative \<open>num_epochs\<close>.
\<close>

definition train_model_loop ::
  "train_config \<Rightarrow> (nat \<Rightarrow> npfloat \<times> npfloat) \<Rightarrow> py_error + train_outcome" where
  "train_model_loop cfg losses = epoch_loop cfg losses 0 (nat (num_epochs cfg)) []"

section \<open>\<open>create_model\<close>\<close>

text \<open>
  The three predictor classes of \<open>model.profile_models\<close>, and the keyword arguments
  \<open>create_model\<close> hands to the class it selected (\<open>arch_num_tasks\<close> is its
  \<open>num_tasks\<close>).
\<close>

datatype predictor_class =
    ProfilePredictorWithoutControls
  | ProfilePredictorWithMatchedControls
  | ProfilePredictorWithSharedControls

record arch_config =
  input_length :: int
  input_depth :: int
  profile_length :: int
  arch_num_tasks :: nat
  num_strands :: int
  num_dil_conv_layers :: int
  dil_conv_filter_sizes :: "int list"
  dil_conv_stride :: int
  dil_conv_dilations :: "int list"
  dil_conv_depths :: "int list"
  prof_conv_kernel_size :: int
  prof_conv_stride :: int

text \<open>
  The selection at the head of \<open>create_model\<close>: an \<open>if\<close>, followed by a separate
  \<open>if\<close>/\<open>elif\<close>. \<open>controls\<close> is \<open>None\<close> or a string; the local name
  \<open>predictor_class\<close> is unbound (\<open>None\<close> here) until a branch assigns it.
\<close>

definition select_predictor_class :: "string option \<Rightarrow> predictor_class option" where
  "select_predictor_class controls =
     (let unbound = None;
          after_first_if =
            (if controls = None then Some ProfilePredictorWithoutControls else unbound)
      in if controls = Some ''matched'' then Some ProfilePredictorWithMatchedControls
         else if controls = Some ''shared'' then Some ProfilePredictorWithSharedControls
         else after_first_if)"

text \<open>
  \<open>create_model\<close>: calling the unbound name raises UnboundLocalError; otherwise the
  model is the selected class applied to the architecture arguments.
\<close>

definition create_model ::
  "string option \<Rightarrow> arch_config \<Rightarrow> py_error + (predictor_class \<times> arch_config)" where
  "create_model controls arch =
     (case select_predictor_class controls of
        None \<Rightarrow> Inl UnboundLocalError
      | Some predictor_class \<Rightarrow> Inr (predictor_class, arch))"

section \<open>\<open>model_loss\<close>\<close>

text \<open>
  The configuration entries \<open>model_loss\<close> captures. Weights and losses are finite
  doubles, carried by the real numbers they denote. The annealing type is \<open>None\<close> or a
  string, and the configuration sets the speed to \<open>None\<close> when the type is \<open>None\<close>.
\<close>

record loss_config =
  counts_loss_weight :: real
  att_prior_loss_weight :: real
  att_prior_loss_weight_anneal_type :: "string option"
  att_prior_loss_weight_anneal_speed :: "real option"
  att_prior_grad_smooth_sigma :: int
  fourier_att_prior_freq_limit :: int
  fourier_att_prior_freq_limit_softness :: "real option"
  att_prior_loss_only :: bool

text \<open>
  The network as the script uses it. A batch tensor is the list of its per-example
  slices: \<open>'x\<close> is one input sequence, \<open>'y\<close> one task's profile and \<open>'k\<close> one task's
  counts. \<open>forward\<close> is the call \<open>model(input_seqs, cont_profs)\<close>;
  \<open>saliency_grads\<close> is the \<open>torch.autograd.grad\<close> of the probability-weighted,
  mean-normalised logits with respect to the input; the two losses are the methods of
  the same names. The attribution-prior loss receives \<open>status\<close> and \<open>input_grads\<close>,
  each possibly \<open>None\<close>, and may raise.
\<close>

record ('x, 'y, 'k) profile_model =
  forward :: "'x list \<Rightarrow> 'y list list option \<Rightarrow> 'y list list \<times> 'k list list"
  saliency_grads :: "'x list \<Rightarrow> 'y list list option \<Rightarrow> 'x list"
  correctness_loss ::
    "'y list list \<Rightarrow> 'y list list \<Rightarrow> 'k list list \<Rightarrow> real \<Rightarrow> real \<times> real \<times> real"
  fourier_att_prior_loss ::
    "int list option \<Rightarrow> 'x list option \<Rightarrow> int \<Rightarrow> real option \<Rightarrow> int \<Rightarrow> py_error + real"

text \<open>Python's \<open>not w\<close> on a number: true exactly for zero.\<close>

definition py_not :: "real \<Rightarrow> bool" where
  "py_not w = (w = 0)"

text \<open>
  The \<open>if\<close>/\<open>elif\<close>/\<open>elif\<close> that sets the local \<open>weight\<close>. The result is
  \<open>None\<close> when no branch assigned it. Negating a speed of \<open>None\<close> raises TypeError.
  \<open>np.exp\<close> is the real exponential.
\<close>

definition anneal_weight ::
  "real \<Rightarrow> string option \<Rightarrow> real option \<Rightarrow> int \<Rightarrow> py_error + real option" where
  "anneal_weight base anneal_type anneal_speed epoch_num =
     (if anneal_type = None then Inr (Some base)
      else if anneal_type = Some ''inflate'' then
        (case anneal_speed of
           None \<Rightarrow> Inl TypeError
         | Some c \<Rightarrow> Inr (Some (base * ((2 / (1 + exp (- c * of_int epoch_num))) - 1))))
      else if anneal_type = Some ''deflate'' then
        (case anneal_speed of
           None \<Rightarrow> Inl TypeError
         | Some c \<Rightarrow> Inr (Some (base * exp (- c * of_int epoch_num))))
      else Inr None)"

text \<open>
  \<open>model_loss\<close> returns the loss, the pair of correctness and attribution-prior loss,
  and the pair of profile and counts loss. \<open>torch.zeros(1)\<close> is the number 0. Reading
  the unassigned \<open>weight\<close> raises UnboundLocalError.
\<close>

definition model_loss ::
  "'z loss_config_scheme \<Rightarrow> ('x, 'y, 'k) profile_model \<Rightarrow> 'y list list \<Rightarrow> 'y list list
     \<Rightarrow> 'k list list \<Rightarrow> int \<Rightarrow> 'x list option \<Rightarrow> int list option
     \<Rightarrow> py_error + (real \<times> (real \<times> real) \<times> (real \<times> real))" where
  "model_loss cfg model true_profs log_pred_profs log_pred_counts epoch_num input_grads status =
     (case correctness_loss model true_profs log_pred_profs log_pred_counts
             (counts_loss_weight cfg) of
        (corr_loss, prof_loss, count_loss) \<Rightarrow>
          if py_not (att_prior_loss_weight cfg)
          then Inr (corr_loss, (corr_loss, 0), (prof_loss, count_loss))
          else
            (case fourier_att_prior_loss model status input_grads
                    (fourier_att_prior_freq_limit cfg)
                    (fourier_att_prior_freq_limit_softness cfg)
                    (att_prior_grad_smooth_sigma cfg) of
               Inl e \<Rightarrow> Inl e
             | Inr att_prior_loss \<Rightarrow>
                 (case anneal_weight (att_prior_loss_weight cfg)
                         (att_prior_loss_weight_anneal_type cfg)
                         (att_prior_loss_weight_anneal_speed cfg) epoch_num of
                    Inl e \<Rightarrow> Inl e
                  | Inr weight \<Rightarrow>
                      if att_prior_loss_only cfg
                      then Inr (att_prior_loss, (corr_loss, att_prior_loss),
                                (prof_loss, count_loss))
                      else
                        (case weight of
                           None \<Rightarrow> Inl UnboundLocalError
                         | Some w \<Rightarrow>
                             Inr (corr_loss + (w * att_prior_loss),
                                  (corr_loss, att_prior_loss), (prof_loss, count_loss))))))"

section \<open>\<open>run_epoch\<close>\<close>

text \<open>
  \<open>run_epoch\<close> captures the loss configuration (it passes it on to \<open>model_loss\<close>)
  and the entries below. The inner dimensions of the preallocated arrays
  (\<open>input_length\<close>, \<open>input_depth\<close>, \<open>profile_length\<close>) belong to the per-example
  slices and have no part in the model.
\<close>

record epoch_config = loss_config +
  num_tasks :: nat
  controls :: "string option"
  batch_size :: int
  revcomp :: bool

text \<open>
  One batch of the data loader: input sequences, profiles (per example, the list of
  task profiles followed by the control profiles), statuses and coordinates. The peaks
  that every batch also carries are never read. The loader is the list of batches its
  iteration yields, with \<open>len(data_loader.dataset)\<close>.
\<close>

record ('x, 'y, 'c) batch =
  input_seqs :: "'x list"
  profiles :: "'y list list"
  statuses :: "int list"
  coords :: "'c list"

record ('x, 'y, 'c) data_loader =
  dataset_len :: nat
  batches :: "('x, 'y, 'c) batch list"

text \<open>
  The tensor arithmetic the loop body applies to one example: the product of gradient
  and input, \<open>np.sum\<close> over the profile positions of one task, and
  \<open>profile_logits_to_log_probs\<close> on one task's logits.
\<close>

record ('x, 'y, 'k) tensor_ops =
  mul_input :: "'x \<Rightarrow> 'x \<Rightarrow> 'x"
  sum_positions :: "'y \<Rightarrow> 'k"
  profile_logits_to_log_probs :: "'y \<Rightarrow> 'y"

text \<open>
  The arrays of the data-collection variant. \<open>np.empty\<close> allocates rows that hold
  nothing yet (\<open>None\<close>); a row that was filled in is \<open>Some\<close> of its value.
\<close>

record ('x, 'y, 'k, 'c) collected =
  all_log_pred_profs :: "'y list option list"
  all_log_pred_counts :: "'k list option list"
  all_true_profs :: "'y list option list"
  all_true_counts :: "'k list option list"
  all_input_seqs :: "'x option list"
  all_input_grads :: "'x option list"
  all_coords :: "'c option list"
  num_samples_seen :: nat

text \<open>
  The preallocation: \<open>num_batches * batch_size\<close>, doubled if \<open>revcomp\<close>, rows per
  array. \<open>np.empty\<close> refuses a negative dimension with ValueError.
\<close>

definition num_samples_exp :: "'z epoch_config_scheme \<Rightarrow> nat \<Rightarrow> int" where
  "num_samples_exp cfg num_batches =
     (int num_batches * batch_size cfg) * (if revcomp cfg then 2 else 1)"

definition allocate ::
  "'z epoch_config_scheme \<Rightarrow> nat \<Rightarrow> py_error + ('x, 'y, 'k, 'c) collected" where
  "allocate cfg num_batches =
     (let n = num_samples_exp cfg num_batches in
      if n < 0 then Inl ValueError
      else Inr \<lparr>all_log_pred_profs = replicate (nat n) None,
                all_log_pred_counts = replicate (nat n) None,
                all_true_profs = replicate (nat n) None,
                all_true_counts = replicate (nat n) None,
                all_input_seqs = replicate (nat n) None,
                all_input_grads = replicate (nat n) None,
                all_coords = replicate (nat n) None,
                num_samples_seen = 0\<rparr>)"

text \<open>
  The slice assignment \<open>a[start:end] = rows\<close> along the first axis, for
  nonnegative bounds. The slice is clipped to the array: it runs from
  \<open>min start (len a)\<close> to \<open>min end (len a)\<close> and is empty when that is not
  above its start. NumPy accepts as many rows as the slice has, or a single row that
  it broadcasts; anything else raises ValueError. The array keeps its length.
\<close>

definition np_set_rows ::
  "'a option list \<Rightarrow> nat \<Rightarrow> nat \<Rightarrow> 'a list \<Rightarrow> py_error + 'a option list" where
  "np_set_rows a start stop rows =
     (let lo = min start (length a); hi = max lo (min stop (length a)); n = hi - lo in
      if length rows = n then Inr (take lo a @ map Some rows @ drop hi a)
      else if length rows = 1 then Inr (take lo a @ replicate n (Some (hd rows)) @ drop hi a)
      else Inl ValueError)"

text \<open>Sequencing of fallible steps: the first exception ends the computation.\<close>

definition and_then :: "py_error + 'a \<Rightarrow> ('a \<Rightarrow> py_error + 'b) \<Rightarrow> py_error + 'b" where
  "and_then r f = (case r of Inl e \<Rightarrow> Inl e | Inr v \<Rightarrow> f v)"

text \<open>
  The block \<open>if return_data:\<close> at the end of the loop body. \<open>input_grads_np\<close> is a
  local name that is bound only when the gradients were computed in this call, and it
  is read when the attribution-prior weight is truthy.
\<close>

definition collect_batch ::
  "'z epoch_config_scheme \<Rightarrow> ('x, 'y, 'k) tensor_ops \<Rightarrow> ('x, 'y, 'k, 'c) collected
     \<Rightarrow> 'x list \<Rightarrow> 'y list list \<Rightarrow> 'k list list \<Rightarrow> 'y list list \<Rightarrow> 'x list option
     \<Rightarrow> 'c list \<Rightarrow> py_error + ('x, 'y, 'k, 'c) collected" where
  "collect_batch cfg ops acc input_seqs_np logit_pred_profs log_pred_counts tf_profs
       input_grads_np coords_np =
     (let true_counts = map (map (sum_positions ops)) tf_profs;
          num_in_batch = length true_counts;
          log_pred_profs = map (map (profile_logits_to_log_probs ops)) logit_pred_profs;
          start = num_samples_seen acc;
          stop = num_samples_seen acc + num_in_batch
      in
      and_then (np_set_rows (all_log_pred_profs acc) start stop log_pred_profs) (\<lambda>a1.
      and_then (np_set_rows (all_log_pred_counts acc) start stop log_pred_counts) (\<lambda>a2.
      and_then (np_set_rows (all_true_profs acc) start stop tf_profs) (\<lambda>a3.
      and_then (np_set_rows (all_true_counts acc) start stop true_counts) (\<lambda>a4.
      and_then (np_set_rows (all_input_seqs acc) start stop input_seqs_np) (\<lambda>a5.
      and_then
        (if \<not> py_not (att_prior_loss_weight cfg)
         then (case input_grads_np of
                 None \<Rightarrow> Inl UnboundLocalError
               | Some g \<Rightarrow> np_set_rows (all_input_grads acc) start stop g)
         else Inr (all_input_grads acc)) (\<lambda>a6.
      and_then (np_set_rows (all_coords acc) start stop coords_np) (\<lambda>a7.
      Inr \<lparr>all_log_pred_profs = a1, all_log_pred_counts = a2, all_true_profs = a3,
           all_true_counts = a4, all_input_seqs = a5, all_input_grads = a6,
           all_coords = a7, num_samples_seen = num_samples_seen acc + num_in_batch\<rparr>))))))))"

text \<open>
  What the loop carries from batch to batch: the network (training updates it), the
  five lists of batch losses, and the arrays when data is collected.
\<close>

record ('x, 'y, 'k, 'c) epoch_state =
  net :: "('x, 'y, 'k) profile_model"
  batch_losses :: "real list"
  corr_losses :: "real list"
  att_losses :: "real list"
  prof_losses :: "real list"
  count_losses :: "real list"
  arrays :: "('x, 'y, 'k, 'c) collected option"

text \<open>
  The guard of \<open>run_epoch\<close> for computing input gradients, and what the loop body
  hands to \<open>model_loss\<close> as \<open>input_grads\<close> and \<open>status\<close>: gradient times input and
  the statuses with every nonzero entry set to 1 under the guard, \<open>None\<close> and \<open>None\<close>
  otherwise.
\<close>

definition computes_input_grads :: "real \<Rightarrow> bool" where
  "computes_input_grads w = (w > 0)"

definition loss_inputs ::
  "'z epoch_config_scheme \<Rightarrow> ('x, 'y, 'k) tensor_ops \<Rightarrow> ('x, 'y, 'k) profile_model
     \<Rightarrow> 'x list \<Rightarrow> 'y list list option \<Rightarrow> int list \<Rightarrow> 'x list option \<times> int list option" where
  "loss_inputs cfg ops model seqs cont_profs stats =
     (if computes_input_grads (att_prior_loss_weight cfg)
      then (Some (map2 (mul_input ops) (saliency_grads model seqs cont_profs) seqs),
            Some (map (\<lambda>s. if s \<noteq> 0 then 1 else s) stats))
      else (None, None))"

text \<open>
  The body of \<open>for input_seqs, profiles, statuses, coords, peaks in t_iter\<close>. The
  optimizer is the update that \<open>loss.backward()\<close> and \<open>optimizer.step()\<close> make to the
  network from the batch; in training mode \<open>optimizer.zero_grad()\<close> comes first and
  needs the optimizer (the assertions of \<open>run_epoch\<close> make sure it is there).
\<close>

definition run_batch ::
  "'z epoch_config_scheme \<Rightarrow> ('x, 'y, 'k) tensor_ops \<Rightarrow> string
     \<Rightarrow> (('x, 'y, 'k) profile_model \<Rightarrow> ('x, 'y, 'c) batch \<Rightarrow> ('x, 'y, 'k) profile_model) option
     \<Rightarrow> bool \<Rightarrow> int \<Rightarrow> ('x, 'y, 'k, 'c) epoch_state \<Rightarrow> ('x, 'y, 'c) batch
     \<Rightarrow> py_error + ('x, 'y, 'k, 'c) epoch_state" where
  "run_batch cfg ops mode optimizer return_data epoch_num st b =
     (let model = net st;
          tf_profs = (if controls cfg \<noteq> None
                      then map (take (num_tasks cfg)) (profiles b) else profiles b);
          cont_profs = (if controls cfg \<noteq> None
                        then Some (map (drop (num_tasks cfg)) (profiles b)) else None);
          preds = forward model (input_seqs b) cont_profs;
          input_grads_np =
            (if computes_input_grads (att_prior_loss_weight cfg) \<and> return_data
             then Some (saliency_grads model (input_seqs b) cont_profs) else None);
          grads_status = loss_inputs cfg ops model (input_seqs b) cont_profs (statuses b)
      in
      if mode = ''train'' \<and> optimizer = None then Inl AttributeError
      else
      and_then
        (model_loss cfg model tf_profs (fst preds) (snd preds) epoch_num
           (fst grads_status) (snd grads_status))
        (\<lambda>(loss, (corr_loss, att_loss), (prof_loss, count_loss)).
      and_then
        (Inr (if mode = ''train''
              then (case optimizer of None \<Rightarrow> model | Some step \<Rightarrow> step model b)
              else model)) (\<lambda>model'.
      and_then
        (case arrays st of
           None \<Rightarrow> Inr None
         | Some acc \<Rightarrow>
             and_then
               (collect_batch cfg ops acc (input_seqs b) (fst preds) (snd preds) tf_profs
                  input_grads_np (coords b))
               (\<lambda>acc'. Inr (Some acc'))) (\<lambda>arrays'.
      Inr \<lparr>net = model',
           batch_losses = batch_losses st @ [loss],
           corr_losses = corr_losses st @ [corr_loss],
           att_losses = att_losses st @ [att_loss],
           prof_losses = prof_losses st @ [prof_loss],
           count_losses = count_losses st @ [count_loss],
           arrays = arrays'\<rparr>))))"

fun batch_loop ::
  "'z epoch_config_scheme \<Rightarrow> ('x, 'y, 'k) tensor_ops \<Rightarrow> string
     \<Rightarrow> (('x, 'y, 'k) profile_model \<Rightarrow> ('x, 'y, 'c) batch \<Rightarrow> ('x, 'y, 'k) profile_model) option
     \<Rightarrow> bool \<Rightarrow> int \<Rightarrow> ('x, 'y, 'k, 'c) epoch_state \<Rightarrow> ('x, 'y, 'c) batch list
     \<Rightarrow> py_error + ('x, 'y, 'k, 'c) epoch_state" where
  "batch_loop cfg ops mode optimizer return_data epoch_num st [] = Inr st"
| "batch_loop cfg ops mode optimizer return_data epoch_num st (b # bs) =
     and_then (run_batch cfg ops mode optimizer return_data epoch_num st b)
       (\<lambda>st'. batch_loop cfg ops mode optimizer return_data epoch_num st' bs)"

text \<open>The final truncation \<open>a[:num_samples_seen]\<close> of every array.\<close>

definition truncate_arrays :: "('x, 'y, 'k, 'c) collected \<Rightarrow> ('x, 'y, 'k, 'c) collected" where
  "truncate_arrays acc =
     \<lparr>all_log_pred_profs = take (num_samples_seen acc) (all_log_pred_profs acc),
      all_log_pred_counts = take (num_samples_seen acc) (all_log_pred_counts acc),
      all_true_profs = take (num_samples_seen acc) (all_true_profs acc),
      all_true_counts = take (num_samples_seen acc) (all_true_counts acc),
      all_input_seqs = take (num_samples_seen acc) (all_input_seqs acc),
      all_input_grads = take (num_samples_seen acc) (all_input_grads acc),
      all_coords = take (num_samples_seen acc) (all_coords acc),
      num_samples_seen = num_samples_seen acc\<rparr>"

text \<open>
  \<open>run_epoch\<close>: the assertions on mode and optimizer, the preallocation when data is
  to be returned, the loop over the batches, and the truncation. The result is the
  final state: the updated network, the lists of losses, and the truncated arrays
  (\<open>None\<close> when \<open>return_data\<close> is off).
\<close>

definition run_epoch ::
  "'z epoch_config_scheme \<Rightarrow> ('x, 'y, 'k) tensor_ops \<Rightarrow> ('x, 'y, 'c) data_loader \<Rightarrow> string
     \<Rightarrow> ('x, 'y, 'k) profile_model \<Rightarrow> int
     \<Rightarrow> (('x, 'y, 'k) profile_model \<Rightarrow> ('x, 'y, 'c) batch \<Rightarrow> ('x, 'y, 'k) profile_model) option
     \<Rightarrow> bool \<Rightarrow> py_error + ('x, 'y, 'k, 'c) epoch_state" where
  "run_epoch cfg ops loader mode model epoch_num optimizer return_data =
     (if mode \<noteq> ''train'' \<and> mode \<noteq> ''eval'' then Inl AssertionError
      else if mode = ''train'' \<and> optimizer = None then Inl AssertionError
      else if mode \<noteq> ''train'' \<and> optimizer \<noteq> None then Inl AssertionError
      else
        and_then
          (if return_data
           then and_then (allocate cfg (dataset_len loader)) (\<lambda>acc. Inr (Some acc))
           else Inr None) (\<lambda>arrays0.
        and_then
          (batch_loop cfg ops mode optimizer return_data epoch_num
             \<lparr>net = model, batch_losses = [], corr_losses = [], att_losses = [],
              prof_losses = [], count_losses = [], arrays = arrays0\<rparr>
             (batches loader)) (\<lambda>st.
        Inr (st\<lparr>arrays := map_option truncate_arrays (arrays st)\<rparr>))))"

text \<open>The number of examples a list of batches holds: the rows of the profiles.\<close>

definition total_examples :: "('x, 'y, 'c) batch list \<Rightarrow> nat" where
  "total_examples bs = sum_list (map (\<lambda>b. length (profiles b)) bs)"

text \<open>All seven arrays have \<open>n\<close> rows.\<close>

definition buffers_of_length :: "nat \<Rightarrow> ('x, 'y, 'k, 'c) collected \<Rightarrow> bool" where
  "buffers_of_length n acc =
     (length (all_log_pred_profs acc) = n \<and> length (all_log_pred_counts acc) = n
      \<and> length (all_true_profs acc) = n \<and> length (all_true_counts acc) = n
      \<and> length (all_input_seqs acc) = n \<and> length (all_input_grads acc) = n
      \<and> length (all_coords acc) = n)"

text \<open>
  A batch whose tensors agree on the number of examples: as many input sequences,
  coordinates and predicted rows as there are profiles.
\<close>

definition well_shaped ::
  "'z epoch_config_scheme \<Rightarrow> ('x, 'y, 'k) profile_model \<Rightarrow> ('x, 'y, 'c) batch \<Rightarrow> bool" where
  "well_shaped cfg model b =
     (let n = length (profiles b);
          cont_profs = (if controls cfg \<noteq> None
                        then Some (map (drop (num_tasks cfg)) (profiles b)) else None);
          preds = forward model (input_seqs b) cont_profs
      in length (input_seqs b) = n \<and> length (coords b) = n
         \<and> length (fst preds) = n \<and> length (snd preds) = n)"

section \<open>The Fourier attribution-prior loss\<close>

text \<open>
  The method \<open>fourier_att_prior_loss\<close> lives in \<open>model.profile_models\<close>, which is not
  among the sources; \<open>model_loss\<close> only calls it. The definitions of this section
  follow the description of the attribution-prior loss in the specification, over the
  real numbers. One example's saliency is a sequence over the input positions.
\<close>

text \<open>
  Modelled from the spec: the reading of a saliency sequence inside the smoothing step
  of \<open>fourier_att_prior_loss\<close>, which is not among the sources. Positions outside
  the sequence count as zero.
\<close>

definition seq_at :: "real list \<Rightarrow> int \<Rightarrow> real" where
  "seq_at x j = (if 0 \<le> j \<and> j < int (length x) then x ! nat j else 0)"

text \<open>
  Modelled from the spec: the smoothing step of \<open>fourier_att_prior_loss\<close> ("smoothed
  with a fixed-bandwidth symmetric smoothing kernel"; the window has \<open>1 + 2 * sigma\<close>
  positions and \<open>sigma = 0\<close> means no smoothing). The weights of the kernel are not
  described, so they are a parameter: \<open>kern d\<close> is the weight at offset \<open>d\<close>.
\<close>

definition smooth :: "(int \<Rightarrow> real) \<Rightarrow> int \<Rightarrow> real list \<Rightarrow> real list" where
  "smooth kern sigma x =
     (if sigma = 0 then x
      else map (\<lambda>i. sum_list (map (\<lambda>d. kern d * seq_at x (int i + d)) [- sigma..sigma]))
             [0..<length x])"

text \<open>
  Modelled from the spec: the energy of a saliency sequence, which the normalisation
  inside \<open>fourier_att_prior_loss\<close> divides out: the sum of its squares.
\<close>

definition energy :: "real list \<Rightarrow> real" where
  "energy x = sum_list (map (\<lambda>v. v * v) x)"

text \<open>
  Modelled from the spec: the normalisation inside \<open>fourier_att_prior_loss\<close>
  ("unit-energy saliency vectors before taking frequency energy"). A sequence of
  energy zero has no unit-energy multiple: the quotient is NaN, here \<open>None\<close>.
\<close>

definition unit_energy :: "real list \<Rightarrow> real list option" where
  "unit_energy x =
     (if energy x = 0 then None else Some (map (\<lambda>v. v / sqrt (energy x)) x))"

text \<open>
  Modelled from the spec: the frequency-domain part of \<open>fourier_att_prior_loss\<close>
  ("transform the saliency sequence into the frequency domain"): the energy of the
  discrete Fourier transform of \<open>x\<close> at the integer frequency \<open>f\<close>.
\<close>

definition freq_energy :: "real list \<Rightarrow> nat \<Rightarrow> real" where
  "freq_energy x f =
     (let n = length x;
          re = sum_list (map (\<lambda>t. x ! t * cos (2 * pi * real f * real t / real n)) [0..<n]);
          im = sum_list (map (\<lambda>t. x ! t * sin (2 * pi * real f * real t / real n)) [0..<n])
      in re * re + im * im)"

text \<open>
  Modelled from the spec: the taper of \<open>fourier_att_prior_loss\<close> ("discard/attenuate
  components above a frequency cutoff with a soft, power-law-decaying taper (or hard
  cutoff if no softness specified)"; the softness \<open>c\<close> decays like \<open>1 / (1 + x^c)\<close>
  after the limit). \<open>taper\<close> is the share of the energy at frequency \<open>f\<close> that is kept.
\<close>

definition taper :: "int \<Rightarrow> real option \<Rightarrow> nat \<Rightarrow> real" where
  "taper freq_limit softness f =
     (if int f \<le> freq_limit then 1
      else (case softness of
              None \<Rightarrow> 0
            | Some c \<Rightarrow> 1 / (1 + (real_of_int (int f - freq_limit)) powr c)))"

text \<open>
  Modelled from the spec: the penalty of \<open>fourier_att_prior_loss\<close> for one example
  ("penalize the normalized energy retained beyond the cutoff"): the energy of the
  smoothed, unit-energy saliency at the frequencies above zero, each weighted by the
  share that the taper does not keep.
\<close>

definition example_penalty ::
  "(int \<Rightarrow> real) \<Rightarrow> int \<Rightarrow> real option \<Rightarrow> int \<Rightarrow> real list \<Rightarrow> real option" where
  "example_penalty kern freq_limit softness sigma grads =
     map_option
       (\<lambda>u. sum_list (map (\<lambda>f. (1 - taper freq_limit softness f) * freq_energy u f)
                         [1..<Suc (length u div 2)]))
       (unit_energy (smooth kern sigma grads))"

text \<open>
  Modelled from the spec: the selection of examples inside \<open>fourier_att_prior_loss\<close>
  ("but only for examples flagged positive; negative examples are excluded"): the
  penalties of the examples whose status is 1.
\<close>

definition positive_penalties ::
  "(int \<Rightarrow> real) \<Rightarrow> int list \<Rightarrow> real list list \<Rightarrow> int \<Rightarrow> real option \<Rightarrow> int
     \<Rightarrow> real option list" where
  "positive_penalties kern status input_grads freq_limit softness sigma =
     map (\<lambda>(s, g). example_penalty kern freq_limit softness sigma g)
       (filter (\<lambda>(s, g). s = 1) (zip status input_grads))"

text \<open>
  Modelled from the spec: \<open>fourier_att_prior_loss\<close> of \<open>model.profile_models\<close> on a
  batch: the mean penalty of the positive examples, zero when there is none, and NaN as
  soon as one penalty is NaN.
\<close>

definition fourier_att_prior_loss_spec ::
  "(int \<Rightarrow> real) \<Rightarrow> int list \<Rightarrow> real list list \<Rightarrow> int \<Rightarrow> real option \<Rightarrow> int \<Rightarrow> npfloat" where
  "fourier_att_prior_loss_spec kern status input_grads freq_limit softness sigma =
     (let ps = positive_penalties kern status input_grads freq_limit softness sigma in
      if ps = [] then Fin 0
      else if None \<in> set ps then NaN
      else Fin (sum_list (map the ps) / real (length ps)))"

text \<open>Scaling every input-gradient value of a batch by \<open>k\<close>.\<close>

definition scale_grads :: "real \<Rightarrow> real list list \<Rightarrow> real list list" where
  "scale_grads k input_grads = map (map (\<lambda>v. k * v)) input_grads"

section \<open>Properties of the NumPy scalars\<close>

lemma length_np_diff: "length (np_diff xs) = length xs - 1"
  by (induction xs rule: np_diff.induct) auto

section \<open>The epoch loop: divergence and early stopping\<close>

lemma early_stop_check_fill:
  "int (length hist) < L - 1 \<Longrightarrow> early_stop_check L d v hist = Inr (False, v # hist)"
  by (simp add: early_stop_check_def)

lemma early_stop_check_raises:
  assumes "\<not> int (length hist) < L - 1" and "length hist \<le> 1"
  shows "early_stop_check L d v hist = Inl ValueError"
proof -
  from assms(2) have "butlast hist = []" by (cases hist) auto
  then show ?thesis using assms(1) by (simp add: early_stop_check_def)
qed

lemma epoch_loop_step_plain:
  "\<not> (isnan (fst (losses e)) \<and> isnan (snd (losses e))) \<Longrightarrow> \<not> early_stopping cfg \<Longrightarrow>
     epoch_loop cfg losses e (Suc n) hist = epoch_loop cfg losses (Suc e) n hist"
  by (auto simp: Let_def)

lemma epoch_loop_step_check:
  "\<not> (isnan (fst (losses e)) \<and> isnan (snd (losses e))) \<Longrightarrow> early_stopping cfg \<Longrightarrow>
     epoch_loop cfg losses e (Suc n) hist =
       (case early_stop_check (early_stop_hist_len cfg) (early_stop_min_delta cfg)
               (snd (losses e)) hist of
          Inl err \<Rightarrow> Inl err
        | Inr (stop, hist') \<Rightarrow>
            if stop
            then Inr \<lparr>epochs_run = Suc e, reason = NotImproving, final_hist = hist'\<rparr>
            else epoch_loop cfg losses (Suc e) n hist')"
  by (auto simp: Let_def)

lemma epoch_loop_nan_bound:
  "epoch_loop cfg losses s n hist = Inr r \<Longrightarrow> s \<le> e \<Longrightarrow> e < s + n \<Longrightarrow>
     isnan (fst (losses e)) \<Longrightarrow> isnan (snd (losses e)) \<Longrightarrow> epochs_run r \<le> Suc e"
proof (induction n arbitrary: s hist)
  case 0
  then show ?case by simp
next
  case (Suc n)
  show ?case
  proof (cases "s = e")
    case True
    with Suc.prems show ?thesis by auto
  next
    case False
    with Suc.prems have le: "Suc s \<le> e" and lt: "e < Suc s + n" by simp_all
    show ?thesis
    proof (cases "isnan (fst (losses s)) \<and> isnan (snd (losses s))")
      case True
      with Suc.prems(1) have "epochs_run r = Suc s" by auto
      with le show ?thesis by simp
    next
      case nn: False
      show ?thesis
      proof (cases "early_stopping cfg")
        case False
        from Suc.prems(1) have "epoch_loop cfg losses (Suc s) n hist = Inr r"
          unfolding epoch_loop_step_plain[where losses = losses and e = s, OF nn False] .
        from Suc.IH[OF this le lt Suc.prems(4) Suc.prems(5)] show ?thesis .
      next
        case True
        note step = epoch_loop_step_check[where losses = losses and e = s and n = n and hist = hist, OF nn True]
        show ?thesis
        proof (cases "early_stop_check (early_stop_hist_len cfg) (early_stop_min_delta cfg)
                        (snd (losses s)) hist")
          case (Inl err)
          with step Suc.prems(1) show ?thesis by simp
        next
          case (Inr res)
          obtain stop h' where res: "res = (stop, h')" by (cases res)
          show ?thesis
          proof (cases stop)
            case True
            with step Inr res Suc.prems(1)
            have "epochs_run r = Suc s" by auto
            with le show ?thesis by simp
          next
            case False
            with step Inr res Suc.prems(1)
            have "epoch_loop cfg losses (Suc s) n h' = Inr r" by simp
            from Suc.IH[OF this le lt Suc.prems(4) Suc.prems(5)] show ?thesis .
          qed
        qed
      qed
    qed
  qed
qed

text \<open>
  C5: in every epoch of \<open>train_model\<close>, if the training epoch loss and the validation
  epoch loss are both NaN, the epoch loop ends in that epoch, whatever the
  early-stopping configuration is: the outcome is the same for every configuration and
  the history is the one the epoch started with, so the early-stopping block was not
  run. For the whole run: when this happens in epoch \<open>epoch\<close>, no more than
  \<open>epoch + 1\<close> epochs are run.
\<close>

theorem nan_losses_end_the_loop:
  assumes "isnan (fst (losses epoch))" and "isnan (snd (losses epoch))"
  shows "epoch_loop cfg losses epoch (Suc n) hist =
           Inr \<lparr>epochs_run = Suc epoch, reason = LossesNaN, final_hist = hist\<rparr>
         \<and> (\<forall>r. int epoch < num_epochs cfg \<longrightarrow> train_model_loop cfg losses = Inr r
               \<longrightarrow> epochs_run r \<le> Suc epoch)"
proof
  show "epoch_loop cfg losses epoch (Suc n) hist =
           Inr \<lparr>epochs_run = Suc epoch, reason = LossesNaN, final_hist = hist\<rparr>"
    using assms by simp
next
  show "\<forall>r. int epoch < num_epochs cfg \<longrightarrow> train_model_loop cfg losses = Inr r
               \<longrightarrow> epochs_run r \<le> Suc epoch"
  proof (intro allI impI)
    fix r
    assume lt: "int epoch < num_epochs cfg" and run: "train_model_loop cfg losses = Inr r"
    from lt have "epoch < 0 + nat (num_epochs cfg)" by simp
    with run assms show "epochs_run r \<le> Suc epoch"
      unfolding train_model_loop_def using epoch_loop_nan_bound by blast
  qed
qed

theorem nan_losses_end_the_loop_witness:
  "isnan (fst (NaN, NaN)) \<and> isnan (snd (NaN, NaN))
   \<and> epoch_loop \<lparr>num_epochs = 10, early_stopping = True, early_stop_hist_len = 1,
        early_stop_min_delta = Fin (1 / 1000)\<rparr> (\<lambda>e. (NaN, NaN)) 0 (Suc 9) []
       = Inr \<lparr>epochs_run = Suc 0, reason = LossesNaN, final_hist = []\<rparr>
   \<and> early_stop_check 1 (Fin (1 / 1000)) NaN [] = Inl ValueError
   \<and> train_model_loop \<lparr>num_epochs = 10, early_stopping = True, early_stop_hist_len = 1,
        early_stop_min_delta = Fin (1 / 1000)\<rparr> (\<lambda>e. (NaN, NaN))
       = Inr \<lparr>epochs_run = Suc 0, reason = LossesNaN, final_hist = []\<rparr>"
proof -
  have h1: "isnan (fst ((\<lambda>e::nat. (NaN, NaN)) 0))" by simp
  have h2: "isnan (snd ((\<lambda>e::nat. (NaN, NaN)) 0))" by simp
  show ?thesis
    using nan_losses_end_the_loop[OF h1 h2, where cfg = "\<lparr>num_epochs = 10,
        early_stopping = True, early_stop_hist_len = 1,
        early_stop_min_delta = Fin (1 / 1000)\<rparr>" and n = 9 and hist = "[]"]
    by (simp add: early_stop_check_def train_model_loop_def eval_nat_numeral)
qed

subsection \<open>The size of the history\<close>

lemma early_stop_check_length:
  assumes "early_stop_check L d v hist = Inr (b, hist')" and "2 \<le> L"
    and "int (length hist) \<le> L - 1"
  shows "int (length hist') \<le> L - 1"
proof (cases "int (length hist) < L - 1")
  case True
  with assms(1) have "hist' = v # hist" by (simp add: early_stop_check_fill)
  with True show ?thesis by simp
next
  case False
  with assms(1) have "hist' = v # butlast hist"
    by (auto simp: early_stop_check_def Let_def split: sum.splits)
  moreover from False assms(2) have "hist \<noteq> []" by auto
  ultimately show ?thesis using assms(3) by simp
qed

lemma epoch_loop_hist_bound:
  "epoch_loop cfg losses s n hist = Inr r \<Longrightarrow> 2 \<le> early_stop_hist_len cfg \<Longrightarrow>
     int (length hist) \<le> early_stop_hist_len cfg - 1 \<Longrightarrow>
     int (length (final_hist r)) \<le> early_stop_hist_len cfg - 1"
proof (induction n arbitrary: s hist)
  case 0
  then show ?case by auto
next
  case (Suc n)
  show ?case
  proof (cases "isnan (fst (losses s)) \<and> isnan (snd (losses s))")
    case True
    with Suc.prems show ?thesis by auto
  next
    case nn: False
    show ?thesis
    proof (cases "early_stopping cfg")
      case False
      from Suc.prems(1) have "epoch_loop cfg losses (Suc s) n hist = Inr r"
        unfolding epoch_loop_step_plain[where losses = losses and e = s, OF nn False] .
      from Suc.IH[OF this Suc.prems(2) Suc.prems(3)] show ?thesis .
    next
      case True
      note step = epoch_loop_step_check[where losses = losses and e = s and n = n
          and hist = hist, OF nn True]
      show ?thesis
      proof (cases "early_stop_check (early_stop_hist_len cfg) (early_stop_min_delta cfg)
                      (snd (losses s)) hist")
        case (Inl err)
        with step Suc.prems(1) show ?thesis by simp
      next
        case (Inr res)
        obtain stop h' where res: "res = (stop, h')" by (cases res)
        from Inr res have chk: "early_stop_check (early_stop_hist_len cfg)
            (early_stop_min_delta cfg) (snd (losses s)) hist = Inr (stop, h')" by simp
        note len = early_stop_check_length[OF chk Suc.prems(2) Suc.prems(3)]
        show ?thesis
        proof (cases stop)
          case True
          with step chk Suc.prems(1) have "final_hist r = h'" by auto
          with len show ?thesis by simp
        next
          case False
          with step chk Suc.prems(1)
          have "epoch_loop cfg losses (Suc s) n h' = Inr r" by simp
          from Suc.IH[OF this Suc.prems(2) len] show ?thesis .
        qed
      qed
    qed
  qed
qed

lemma epoch_loop_returns:
  "3 \<le> early_stop_hist_len cfg \<Longrightarrow> int (length hist) \<le> early_stop_hist_len cfg - 1 \<Longrightarrow>
     \<exists>r. epoch_loop cfg losses s n hist = Inr r"
proof (induction n arbitrary: s hist)
  case 0
  then show ?case by simp
next
  case (Suc n)
  show ?case
  proof (cases "isnan (fst (losses s)) \<and> isnan (snd (losses s))")
    case True
    then show ?thesis by simp
  next
    case nn: False
    show ?thesis
    proof (cases "early_stopping cfg")
      case False
      show ?thesis
        unfolding epoch_loop_step_plain[where losses = losses and e = s, OF nn False]
        using Suc.IH[OF Suc.prems] .
    next
      case True
      note step = epoch_loop_step_check[where losses = losses and e = s and n = n
          and hist = hist, OF nn True]
      let ?L = "early_stop_hist_len cfg" and ?d = "early_stop_min_delta cfg"
      let ?v = "snd (losses s)"
      show ?thesis
      proof (cases "int (length hist) < ?L - 1")
        case fill: True
        then have "early_stop_check ?L ?d ?v hist = Inr (False, ?v # hist)"
          by (rule early_stop_check_fill)
        moreover from fill have "int (length (?v # hist)) \<le> ?L - 1" by simp
        ultimately show ?thesis using step Suc.IH[OF Suc.prems(1)] by simp
      next
        case full: False
        with Suc.prems have len: "int (length hist) = ?L - 1" by simp
        with Suc.prems(1) have "2 \<le> length hist" by simp
        then have "length (np_diff (?v # butlast hist)) \<noteq> 0"
          by (simp add: length_np_diff)
        then have "np_diff (?v # butlast hist) \<noteq> []" by fastforce
        then obtain m where m: "np_max (np_diff (?v # butlast hist)) = Inr m"
          by (cases "np_diff (?v # butlast hist)") auto
        with full have chk: "early_stop_check ?L ?d ?v hist = Inr (flt m ?d, ?v # butlast hist)"
          by (simp add: early_stop_check_def)
        from len \<open>2 \<le> length hist\<close> have "int (length (?v # butlast hist)) \<le> ?L - 1"
          by simp
        from Suc.IH[OF Suc.prems(1) this] chk step show ?thesis by auto
      qed
    qed
  qed
qed

lemma epoch_loop_raises_short:
  assumes es: "early_stopping cfg" and L: "early_stop_hist_len cfg \<le> 2"
    and n0: "\<not> (isnan (fst (losses 0)) \<and> isnan (snd (losses 0)))"
    and n1: "\<not> (isnan (fst (losses (Suc 0))) \<and> isnan (snd (losses (Suc 0))))"
  shows "epoch_loop cfg losses 0 (Suc (Suc n)) [] = Inl ValueError"
proof (cases "early_stop_hist_len cfg \<le> 1")
  case True
  then have "\<not> int (length ([]::npfloat list)) < early_stop_hist_len cfg - 1" by simp
  then have "early_stop_check (early_stop_hist_len cfg) (early_stop_min_delta cfg)
      (snd (losses 0)) [] = Inl ValueError"
    by (rule early_stop_check_raises) simp
  then show ?thesis
    using epoch_loop_step_check[where losses = losses and e = 0 and n = "Suc n"
        and hist = "[]", OF n0 es] by simp
next
  case False
  with L have two: "early_stop_hist_len cfg = 2" by simp
  then have "early_stop_check (early_stop_hist_len cfg) (early_stop_min_delta cfg)
      (snd (losses 0)) [] = Inr (False, [snd (losses 0)])"
    by (simp add: early_stop_check_fill)
  then have first: "epoch_loop cfg losses 0 (Suc (Suc n)) []
      = epoch_loop cfg losses (Suc 0) (Suc n) [snd (losses 0)]"
    using epoch_loop_step_check[where losses = losses and e = 0 and n = "Suc n"
        and hist = "[]", OF n0 es] by simp
  from two have "\<not> int (length [snd (losses 0)]) < early_stop_hist_len cfg - 1" by simp
  then have "early_stop_check (early_stop_hist_len cfg) (early_stop_min_delta cfg)
      (snd (losses (Suc 0))) [snd (losses 0)] = Inl ValueError"
    by (rule early_stop_check_raises) simp
  then have "epoch_loop cfg losses (Suc 0) (Suc n) [snd (losses 0)] = Inl ValueError"
    using epoch_loop_step_check[where losses = losses and e = "Suc 0" and n = n
        and hist = "[snd (losses 0)]", OF n1 es] by simp
  with first show ?thesis by simp
qed

text \<open>
  C3: the claim is that at every early-stopping decision the history holds exactly the
  most recent \<open>early_stop_hist_len\<close> validation losses, newest first. The code keeps
  one loss less. With \<open>early_stop_hist_len = 3\<close> and the validation losses 3, 2, 1 the
  only decision is taken in the third epoch, on the window \<open>[1, 2]\<close>: the loss 3 of the
  first epoch was dropped from the list before any decision read it, and the run ends
  with a history of two entries.
\<close>

theorem history_holds_one_loss_less:
  "train_model_loop \<lparr>num_epochs = 3, early_stopping = True, early_stop_hist_len = 3,
       early_stop_min_delta = Fin (1 / 1000)\<rparr> (\<lambda>e. (Fin 1, Fin (3 - real e)))
     = Inr \<lparr>epochs_run = 3, reason = EpochsExhausted, final_hist = [Fin 1, Fin 2]\<rparr>
   \<and> early_stop_check 3 (Fin (1 / 1000)) (Fin 1) [Fin 2, Fin 3]
     = Inr (False, [Fin 1, Fin 2])"
  by (simp add: train_model_loop_def eval_nat_numeral early_stop_check_def Let_def fmax_def)

text \<open>
  C2: the claim is that, once the window of the \<open>early_stop_hist_len\<close> most recent
  validation losses is full, the loop stops when the largest successive improvement
  over that window is below \<open>early_stop_min_delta\<close> and continues when one
  improvement is greater than or equal to it. The code decides on one loss less. With
  \<open>early_stop_hist_len = 3\<close>, a delta of 0.001 and the validation losses 3, 2, 2 the
  three most recent losses, newest first, are \<open>[2, 2, 3]\<close>, whose successive
  differences are 0 and 1, and 1 is an improvement of at least the delta; the code
  takes its decision in the third epoch on \<open>[2, 2]\<close>, finds the maximum 0 below the
  delta and stops.
\<close>

theorem early_stop_misses_oldest_improvement:
  "train_model_loop \<lparr>num_epochs = 10, early_stopping = True, early_stop_hist_len = 3,
       early_stop_min_delta = Fin (1 / 1000)\<rparr>
       (\<lambda>e. (Fin 1, if e = 0 then Fin 3 else Fin 2))
     = Inr \<lparr>epochs_run = 3, reason = NotImproving, final_hist = [Fin 2, Fin 2]\<rparr>
   \<and> early_stop_check 3 (Fin (1 / 1000)) (Fin 2) [Fin 2, Fin 3] = Inr (True, [Fin 2, Fin 2])
   \<and> np_diff [Fin 2, Fin 2, Fin 3] = [Fin 0, Fin 1]
   \<and> fle (Fin (1 / 1000)) (Fin 1)
   \<and> np_max (np_diff [Fin 2, Fin 2, Fin 3]) = Inr (Fin 1)
   \<and> \<not> flt (Fin 1) (Fin (1 / 1000))"
  by (simp add: train_model_loop_def eval_nat_numeral early_stop_check_def Let_def fmax_def)

text \<open>
  C10: the claim is that with early stopping enabled and \<open>early_stop_hist_len = 1\<close> the
  first epoch skips the fill branch and takes the maximum of an empty difference array,
  which raises, and that the check is well defined for an \<open>early_stop_hist_len\<close> of at
  least 2. The code raises with \<open>early_stop_hist_len = 2\<close> as well: the first epoch
  puts one loss into the history (\<open>0 < 1\<close>), the second epoch puts the new loss in
  front of the history without its last entry, which is again a single loss, and the
  maximum of its empty difference array raises ValueError. A run of two epochs with the
  validation losses 1, 1 ends in this exception.
\<close>

theorem early_stop_check_raises_at_two:
  "train_model_loop \<lparr>num_epochs = 2, early_stopping = True, early_stop_hist_len = 2,
       early_stop_min_delta = Fin (1 / 1000)\<rparr> (\<lambda>e. (Fin 1, Fin 1)) = Inl ValueError
   \<and> early_stop_check 2 (Fin (1 / 1000)) (Fin 1) [] = Inr (False, [Fin 1])
   \<and> Fin 1 # butlast [Fin 1] = [Fin 1]
   \<and> np_diff [Fin 1] = []
   \<and> early_stop_check 2 (Fin (1 / 1000)) (Fin 1) [Fin 1] = Inl ValueError"
  by (simp add: train_model_loop_def eval_nat_numeral early_stop_check_def Let_def)

text \<open>
  Where the early-stopping block raises: in the first epoch for a history length of 1,
  in the second for a history length of 2 (in an epoch whose two losses are not both
  NaN, so that the block is reached), and in no run at all from a history length of 3.
\<close>

lemma epoch_loop_raises_below_three:
  "(early_stopping cfg \<longrightarrow> early_stop_hist_len cfg = 1
      \<longrightarrow> \<not> (isnan (fst (losses 0)) \<and> isnan (snd (losses 0)))
      \<longrightarrow> \<not> int (length ([]::npfloat list)) < early_stop_hist_len cfg - 1
          \<and> np_diff (snd (losses 0) # butlast []) = []
          \<and> epoch_loop cfg losses 0 (Suc n) [] = Inl ValueError)
   \<and> (early_stopping cfg \<longrightarrow> early_stop_hist_len cfg = 2
      \<longrightarrow> \<not> (isnan (fst (losses 0)) \<and> isnan (snd (losses 0)))
      \<longrightarrow> \<not> (isnan (fst (losses (Suc 0))) \<and> isnan (snd (losses (Suc 0))))
      \<longrightarrow> epoch_loop cfg losses 0 (Suc (Suc n)) [] = Inl ValueError)
   \<and> ((\<forall>c ls. early_stop_hist_len c = L \<longrightarrow> (\<exists>r. train_model_loop c ls = Inr r))
        \<longleftrightarrow> 3 \<le> L)"
proof (intro conjI impI)
  assume es: "early_stopping cfg" and one: "early_stop_hist_len cfg = 1"
    and n0: "\<not> (isnan (fst (losses 0)) \<and> isnan (snd (losses 0)))"
  from one show "\<not> int (length ([]::npfloat list)) < early_stop_hist_len cfg - 1" by simp
  show "np_diff (snd (losses 0) # butlast []) = []" by simp
  from one have "early_stop_check (early_stop_hist_len cfg) (early_stop_min_delta cfg)
      (snd (losses 0)) [] = Inl ValueError"
    by (simp add: early_stop_check_def)
  then show "epoch_loop cfg losses 0 (Suc n) [] = Inl ValueError"
    using epoch_loop_step_check[where losses = losses and e = 0 and n = n
        and hist = "[]", OF n0 es] by simp
next
  assume "early_stopping cfg" and "early_stop_hist_len cfg = 2"
    and "\<not> (isnan (fst (losses 0)) \<and> isnan (snd (losses 0)))"
    and "\<not> (isnan (fst (losses (Suc 0))) \<and> isnan (snd (losses (Suc 0))))"
  then show "epoch_loop cfg losses 0 (Suc (Suc n)) [] = Inl ValueError"
    using epoch_loop_raises_short[of cfg losses n] by simp
next
  show "(\<forall>c ls. early_stop_hist_len c = L \<longrightarrow> (\<exists>r. train_model_loop c ls = Inr r))
        \<longleftrightarrow> 3 \<le> L"
  proof
    assume all: "\<forall>c ls. early_stop_hist_len c = L \<longrightarrow> (\<exists>r. train_model_loop c ls = Inr r)"
    show "3 \<le> L"
    proof (rule ccontr)
      assume "\<not> 3 \<le> L"
      then have small: "L \<le> 2" by simp
      let ?c = "\<lparr>num_epochs = 2, early_stopping = True, early_stop_hist_len = L,
                  early_stop_min_delta = Fin 0\<rparr>"
      let ?ls = "\<lambda>e::nat. (Fin 0, Fin 0)"
      have "epoch_loop ?c ?ls 0 (Suc (Suc 0)) [] = Inl ValueError"
        by (rule epoch_loop_raises_short) (use small in simp_all)
      then have "train_model_loop ?c ?ls = Inl ValueError"
        by (simp add: train_model_loop_def eval_nat_numeral)
      moreover from all have "\<exists>r. train_model_loop ?c ?ls = Inr r" by simp
      ultimately show False by simp
    qed
  next
    assume three: "3 \<le> L"
    show "\<forall>c ls. early_stop_hist_len c = L \<longrightarrow> (\<exists>r. train_model_loop c ls = Inr r)"
    proof (intro allI impI)
      fix c :: train_config and ls
      assume "early_stop_hist_len c = L"
      with three have a: "3 \<le> early_stop_hist_len c"
        and b: "int (length ([]::npfloat list)) \<le> early_stop_hist_len c - 1" by simp_all
      show "\<exists>r. train_model_loop c ls = Inr r"
        unfolding train_model_loop_def using epoch_loop_returns[OF a b] .
    qed
  qed
qed

section \<open>\<open>create_model\<close> and \<open>model_loss\<close>\<close>

text \<open>
  C6: for every value of \<open>controls\<close> other than \<open>None\<close>, \<open>"matched"\<close> and
  \<open>"shared"\<close>, \<open>create_model\<close> selects no predictor class and raises no error of its
  own: the instantiation that follows fails on the unbound name. For \<open>controls\<close> equal
  to \<open>None\<close> the chain of \<open>if\<close>, \<open>if\<close>, \<open>elif\<close> still yields the predictor
  without controls, because the \<open>"matched"\<close> and \<open>"shared"\<close> branches do not fire; the
  two strings select their own classes.
\<close>

theorem create_model_unsupported_controls:
  "(ctl \<noteq> None \<and> ctl \<noteq> Some ''matched'' \<and> ctl \<noteq> Some ''shared''
      \<longrightarrow> select_predictor_class ctl = None
          \<and> create_model ctl arch = Inl UnboundLocalError)
   \<and> select_predictor_class None = Some ProfilePredictorWithoutControls
   \<and> create_model None arch = Inr (ProfilePredictorWithoutControls, arch)
   \<and> create_model (Some ''matched'') arch = Inr (ProfilePredictorWithMatchedControls, arch)
   \<and> create_model (Some ''shared'') arch = Inr (ProfilePredictorWithSharedControls, arch)"
  by (simp add: create_model_def select_predictor_class_def)

theorem create_model_unsupported_controls_witness:
  "Some ''paired'' \<noteq> None \<and> Some ''paired'' \<noteq> Some ''matched''
   \<and> Some ''paired'' \<noteq> Some ''shared''
   \<and> select_predictor_class (Some ''paired'') = None
   \<and> create_model (Some ''paired'')
         \<lparr>input_length = 1346, input_depth = 4, profile_length = 1000, arch_num_tasks = 4,
          num_strands = 2, num_dil_conv_layers = 7,
          dil_conv_filter_sizes = [21, 3, 3, 3, 3, 3, 3], dil_conv_stride = 1,
          dil_conv_dilations = [1, 2, 4, 8, 16, 32, 64],
          dil_conv_depths = [64, 64, 64, 64, 64, 64, 64],
          prof_conv_kernel_size = 75, prof_conv_stride = 1\<rparr> = Inl UnboundLocalError"
  using create_model_unsupported_controls[where ctl = "Some ''paired''" and arch =
         "\<lparr>input_length = 1346, input_depth = 4, profile_length = 1000, arch_num_tasks = 4,
          num_strands = 2, num_dil_conv_layers = 7,
          dil_conv_filter_sizes = [21, 3, 3, 3, 3, 3, 3], dil_conv_stride = 1,
          dil_conv_dilations = [1, 2, 4, 8, 16, 32, 64],
          dil_conv_depths = [64, 64, 64, 64, 64, 64, 64],
          prof_conv_kernel_size = 75, prof_conv_stride = 1\<rparr>"]
  by simp

text \<open>
  C1: for every input (true profiles, predicted logits, predicted log counts, epoch
  number, input gradients and status, given or \<open>None\<close>), when
  \<open>att_prior_loss_weight\<close> is zero, \<open>model_loss\<close> returns the correctness loss as the
  total loss and exactly zero as the attribution-prior component. The attribution-prior
  computation is not invoked: the result is the same whatever function stands for
  \<open>fourier_att_prior_loss\<close>, one that raises on every input included.
\<close>

theorem model_loss_zero_weight:
  "att_prior_loss_weight cfg = 0 \<Longrightarrow>
     model_loss cfg model true_profs log_pred_profs log_pred_counts epoch_num input_grads status
       = (case correctness_loss model true_profs log_pred_profs log_pred_counts
                 (counts_loss_weight cfg) of
            (corr_loss, prof_loss, count_loss) \<Rightarrow>
              Inr (corr_loss, (corr_loss, 0), (prof_loss, count_loss)))
   \<and> model_loss cfg (model\<lparr>fourier_att_prior_loss := prior\<rparr>) true_profs log_pred_profs
         log_pred_counts epoch_num input_grads status
       = model_loss cfg model true_profs log_pred_profs log_pred_counts epoch_num
           input_grads status"
  by (simp add: model_loss_def py_not_def split: prod.splits)

theorem model_loss_zero_weight_witness:
  "att_prior_loss_weight
     \<lparr>counts_loss_weight = 20, att_prior_loss_weight = 0,
      att_prior_loss_weight_anneal_type = None, att_prior_loss_weight_anneal_speed = None,
      att_prior_grad_smooth_sigma = 3, fourier_att_prior_freq_limit = 200,
      fourier_att_prior_freq_limit_softness = Some (1 / 5), att_prior_loss_only = True\<rparr> = 0
   \<and> model_loss
     \<lparr>counts_loss_weight = 20, att_prior_loss_weight = 0,
      att_prior_loss_weight_anneal_type = None, att_prior_loss_weight_anneal_speed = None,
      att_prior_grad_smooth_sigma = 3, fourier_att_prior_freq_limit = 200,
      fourier_att_prior_freq_limit_softness = Some (1 / 5), att_prior_loss_only = True\<rparr>
     \<lparr>forward = (\<lambda>xs c. ([], [])), saliency_grads = (\<lambda>xs c. xs),
      correctness_loss = (\<lambda>t p c w. (3 + w * 2, 3, 2)),
      fourier_att_prior_loss = (\<lambda>s g l c sg. Inl TypeError)\<rparr>
     [[1::nat]] [[2]] [[5::nat]] 7 (None :: nat list option) None
     = Inr (43, (43, 0), (3, 2))"
  using model_loss_zero_weight[where cfg =
     "\<lparr>counts_loss_weight = 20, att_prior_loss_weight = 0,
      att_prior_loss_weight_anneal_type = None, att_prior_loss_weight_anneal_speed = None,
      att_prior_grad_smooth_sigma = 3, fourier_att_prior_freq_limit = 200,
      fourier_att_prior_freq_limit_softness = Some (1 / 5), att_prior_loss_only = True\<rparr>"
     and model = "\<lparr>forward = (\<lambda>xs c. ([], [])), saliency_grads = (\<lambda>xs c. xs),
      correctness_loss = (\<lambda>t p c w. (3 + w * 2, 3, 2)),
      fourier_att_prior_loss = (\<lambda>s g l c sg. Inl TypeError)\<rparr>"
     and true_profs = "[[1::nat]]" and log_pred_profs = "[[2]]"
     and log_pred_counts = "[[5::nat]]" and epoch_num = 7
     and input_grads = "None :: nat list option" and status = None]
  by simp

text \<open>
  C4: the annealed attribution-prior weight that \<open>model_loss\<close> computes. At epoch
  \<open>n\<close> it is the base weight when the anneal type is \<open>None\<close>,
  \<open>base * (2 / (1 + e^(-c*n)) - 1)\<close> for \<open>"inflate"\<close> and \<open>base * e^(-c*n)\<close> for
  \<open>"deflate"\<close>; at epoch 0 this is the base weight, 0 and the base weight. The weight
  so computed is the factor of the attribution-prior loss in the total loss (when the
  base weight is not zero and the loss is not the prior alone).
\<close>

theorem annealed_weight:
  "anneal_weight base None speed n = Inr (Some base)
   \<and> anneal_weight base (Some ''inflate'') (Some c) n
       = Inr (Some (base * (2 / (1 + exp (- c * of_int n)) - 1)))
   \<and> anneal_weight base (Some ''deflate'') (Some c) n
       = Inr (Some (base * exp (- c * of_int n)))
   \<and> anneal_weight base None speed 0 = Inr (Some base)
   \<and> anneal_weight base (Some ''inflate'') (Some c) 0 = Inr (Some 0)
   \<and> anneal_weight base (Some ''deflate'') (Some c) 0 = Inr (Some base)
   \<and> (att_prior_loss_weight cfg \<noteq> 0 \<longrightarrow> \<not> att_prior_loss_only cfg \<longrightarrow>
        fourier_att_prior_loss model status input_grads (fourier_att_prior_freq_limit cfg)
          (fourier_att_prior_freq_limit_softness cfg) (att_prior_grad_smooth_sigma cfg)
          = Inr a \<longrightarrow>
        anneal_weight (att_prior_loss_weight cfg) (att_prior_loss_weight_anneal_type cfg)
          (att_prior_loss_weight_anneal_speed cfg) epoch_num = Inr (Some w) \<longrightarrow>
        model_loss cfg model true_profs log_pred_profs log_pred_counts epoch_num
            input_grads status
          = (case correctness_loss model true_profs log_pred_profs log_pred_counts
                    (counts_loss_weight cfg) of
               (corr_loss, prof_loss, count_loss) \<Rightarrow>
                 Inr (corr_loss + w * a, (corr_loss, a), (prof_loss, count_loss))))"
  by (simp add: anneal_weight_def model_loss_def py_not_def split: prod.splits)

theorem annealed_weight_witness:
  "model_loss
     \<lparr>counts_loss_weight = 20, att_prior_loss_weight = 50,
      att_prior_loss_weight_anneal_type = Some ''inflate'',
      att_prior_loss_weight_anneal_speed = Some 1,
      att_prior_grad_smooth_sigma = 3, fourier_att_prior_freq_limit = 200,
      fourier_att_prior_freq_limit_softness = Some (1 / 5), att_prior_loss_only = False\<rparr>
     \<lparr>forward = (\<lambda>xs c. ([], [])), saliency_grads = (\<lambda>xs c. xs),
      correctness_loss = (\<lambda>t p c w. (3 + w * 2, 3, 2)),
      fourier_att_prior_loss = (\<lambda>s g l c sg. Inr (1 / 2))\<rparr>
     [[1::nat]] [[2]] [[5::nat]] 0 (Some [4::nat]) (Some [1])
     = Inr (43, (43, 1 / 2), (3, 2))
   \<and> model_loss
     \<lparr>counts_loss_weight = 20, att_prior_loss_weight = 50,
      att_prior_loss_weight_anneal_type = Some ''deflate'',
      att_prior_loss_weight_anneal_speed = Some (3 / 10),
      att_prior_grad_smooth_sigma = 3, fourier_att_prior_freq_limit = 200,
      fourier_att_prior_freq_limit_softness = Some (1 / 5), att_prior_loss_only = False\<rparr>
     \<lparr>forward = (\<lambda>xs c. ([], [])), saliency_grads = (\<lambda>xs c. xs),
      correctness_loss = (\<lambda>t p c w. (3 + w * 2, 3, 2)),
      fourier_att_prior_loss = (\<lambda>s g l c sg. Inr (1 / 2))\<rparr>
     [[1::nat]] [[2]] [[5::nat]] 0 (Some [4::nat]) (Some [1])
     = Inr (68, (43, 1 / 2), (3, 2))"
proof -
  let ?m = "\<lparr>forward = (\<lambda>(xs::nat list) (c::nat list list option).
                  ([]::nat list list, []::nat list list)),
      saliency_grads = (\<lambda>xs c. xs),
      correctness_loss = (\<lambda>t p c w. (3 + w * 2, 3, 2)),
      fourier_att_prior_loss = (\<lambda>s g l c sg. Inr (1 / 2))\<rparr>"
  let ?ci = "\<lparr>counts_loss_weight = 20, att_prior_loss_weight = 50,
      att_prior_loss_weight_anneal_type = Some ''inflate'',
      att_prior_loss_weight_anneal_speed = Some 1,
      att_prior_grad_smooth_sigma = 3, fourier_att_prior_freq_limit = 200,
      fourier_att_prior_freq_limit_softness = Some (1 / 5), att_prior_loss_only = False\<rparr>"
  let ?cd = "\<lparr>counts_loss_weight = 20, att_prior_loss_weight = 50,
      att_prior_loss_weight_anneal_type = Some ''deflate'',
      att_prior_loss_weight_anneal_speed = Some (3 / 10),
      att_prior_grad_smooth_sigma = 3, fourier_att_prior_freq_limit = 200,
      fourier_att_prior_freq_limit_softness = Some (1 / 5), att_prior_loss_only = False\<rparr>"
  have wi: "anneal_weight 50 (Some ''inflate'') (Some 1) 0 = Inr (Some 0)"
    using annealed_weight[where base = 50 and c = 1] by blast
  have wd: "anneal_weight 50 (Some ''deflate'') (Some (3 / 10)) 0 = Inr (Some 50)"
    using annealed_weight[where base = 50 and c = "3 / 10"] by blast
  have a: "model_loss ?ci ?m [[1::nat]] [[2]] [[5::nat]] 0 (Some [4::nat]) (Some [1])
      = Inr (43, (43, 1 / 2), (3, 2))"
    using wi annealed_weight[where cfg = ?ci and model = ?m and a = "1 / 2" and w = 0
        and epoch_num = 0 and status = "Some [1]" and input_grads = "Some [4]"
        and true_profs = "[[1]]" and log_pred_profs = "[[2]]" and log_pred_counts = "[[5]]"]
    by simp
  have b: "model_loss ?cd ?m [[1::nat]] [[2]] [[5::nat]] 0 (Some [4::nat]) (Some [1])
      = Inr (68, (43, 1 / 2), (3, 2))"
    using wd annealed_weight[where cfg = ?cd and model = ?m and a = "1 / 2" and w = 50
        and epoch_num = 0 and status = "Some [1]" and input_grads = "Some [4]"
        and true_profs = "[[1]]" and log_pred_profs = "[[2]]" and log_pred_counts = "[[5]]"]
    by simp
  from a b show ?thesis by simp
qed

section \<open>\<open>run_epoch\<close>: guards and collected data\<close>

lemma and_then_Inl: "and_then (Inl e) f = Inl e"
  by (simp add: and_then_def)

lemma and_then_Inr: "and_then (Inr v) f = f v"
  by (simp add: and_then_def)

lemma and_then_eq_Inr:
  "and_then r f = Inr y \<Longrightarrow> \<exists>v. r = Inr v \<and> f v = Inr y"
  by (cases r) (simp_all add: and_then_def)

lemma model_loss_prior_raises:
  "\<not> py_not (att_prior_loss_weight cfg) \<Longrightarrow>
   fourier_att_prior_loss model status input_grads (fourier_att_prior_freq_limit cfg)
       (fourier_att_prior_freq_limit_softness cfg) (att_prior_grad_smooth_sigma cfg) = Inl e \<Longrightarrow>
   model_loss cfg model tp lp lc epoch_num input_grads status = Inl e"
  by (simp add: model_loss_def split: prod.splits)

lemma model_loss_prior_value:
  "\<not> py_not (att_prior_loss_weight cfg) \<Longrightarrow>
   model_loss cfg model tp lp lc epoch_num input_grads status
     = Inr (loss, (corr_loss, att_loss), (prof_loss, count_loss)) \<Longrightarrow>
   fourier_att_prior_loss model status input_grads (fourier_att_prior_freq_limit cfg)
       (fourier_att_prior_freq_limit_softness cfg) (att_prior_grad_smooth_sigma cfg)
     = Inr att_loss"
  by (auto simp: model_loss_def split: prod.splits sum.splits if_splits option.splits)

text \<open>
  C9: for every strictly negative \<open>att_prior_loss_weight\<close>, \<open>run_epoch\<close> skips the
  computation of the input gradients (its guard is \<open>weight > 0\<close>) and hands
  \<open>input_grads = None\<close> and \<open>status = None\<close> to \<open>model_loss\<close>, while \<open>model_loss\<close>
  does not take its early return (its guard is the falsiness of the weight) and calls
  \<open>fourier_att_prior_loss\<close> on these two \<open>None\<close> arguments: an exception of that call
  is the outcome of the batch, and when the batch goes through, the value of that call
  is the attribution-prior loss it records. The two guards agree exactly for the
  nonnegative weights.
\<close>

theorem negative_weight_reaches_prior:
  assumes neg: "att_prior_loss_weight cfg < 0"
  shows "\<not> computes_input_grads (att_prior_loss_weight cfg)
   \<and> \<not> py_not (att_prior_loss_weight cfg)
   \<and> loss_inputs cfg ops (net st) (input_seqs b)
        (if controls cfg \<noteq> None then Some (map (drop (num_tasks cfg)) (profiles b)) else None)
        (statuses b) = (None, None)
   \<and> (\<forall>e. \<not> (mode = ''train'' \<and> optimizer = None) \<longrightarrow>
          fourier_att_prior_loss (net st) None None (fourier_att_prior_freq_limit cfg)
            (fourier_att_prior_freq_limit_softness cfg) (att_prior_grad_smooth_sigma cfg)
            = Inl e \<longrightarrow>
          run_batch cfg ops mode optimizer return_data epoch_num st b = Inl e)
   \<and> (\<forall>st'. run_batch cfg ops mode optimizer return_data epoch_num st b = Inr st' \<longrightarrow>
          (\<exists>a. fourier_att_prior_loss (net st) None None (fourier_att_prior_freq_limit cfg)
                 (fourier_att_prior_freq_limit_softness cfg) (att_prior_grad_smooth_sigma cfg)
                 = Inr a
               \<and> att_losses st' = att_losses st @ [a]))
   \<and> (\<forall>w. (computes_input_grads w = (\<not> py_not w)) = (0 \<le> w))"
proof (intro conjI allI impI)
  from neg show g1: "\<not> computes_input_grads (att_prior_loss_weight cfg)"
    by (simp add: computes_input_grads_def)
  from neg show g2: "\<not> py_not (att_prior_loss_weight cfg)"
    by (simp add: py_not_def)
  from g1 show li: "loss_inputs cfg ops (net st) (input_seqs b)
        (if controls cfg \<noteq> None then Some (map (drop (num_tasks cfg)) (profiles b)) else None)
        (statuses b) = (None, None)"
    by (simp add: loss_inputs_def)
  {
    fix e
    assume m: "\<not> (mode = ''train'' \<and> optimizer = None)"
      and r: "fourier_att_prior_loss (net st) None None (fourier_att_prior_freq_limit cfg)
            (fourier_att_prior_freq_limit_softness cfg) (att_prior_grad_smooth_sigma cfg)
            = Inl e"
    from model_loss_prior_raises[OF g2 r]
    show "run_batch cfg ops mode optimizer return_data epoch_num st b = Inl e"
      using m li by (auto simp: run_batch_def Let_def and_then_Inl)
  }
  {
    fix st'
    assume ok: "run_batch cfg ops mode optimizer return_data epoch_num st b = Inr st'"
    let ?tf = "if controls cfg \<noteq> None then map (take (num_tasks cfg)) (profiles b)
               else profiles b"
    let ?cp = "if controls cfg \<noteq> None then Some (map (drop (num_tasks cfg)) (profiles b))
               else None"
    let ?preds = "forward (net st) (input_seqs b) ?cp"
    let ?ml = "model_loss cfg (net st) ?tf (fst ?preds) (snd ?preds) epoch_num None None"
    from ok li obtain res where ml: "?ml = Inr res"
      by (cases ?ml) (auto simp: run_batch_def Let_def and_then_Inl split: if_splits)
    obtain loss corr_loss att_loss prof_loss count_loss
      where res: "res = (loss, (corr_loss, att_loss), (prof_loss, count_loss))"
      by (cases res) auto
    from model_loss_prior_value[OF g2 ml[unfolded res]]
    have pv: "fourier_att_prior_loss (net st) None None (fourier_att_prior_freq_limit cfg)
        (fourier_att_prior_freq_limit_softness cfg) (att_prior_grad_smooth_sigma cfg)
        = Inr att_loss" .
    from ok li ml res have "att_losses st' = att_losses st @ [att_loss]"
      by (auto simp: run_batch_def Let_def and_then_def split: if_splits sum.splits option.splits)
    with pv show "\<exists>a. fourier_att_prior_loss (net st) None None
        (fourier_att_prior_freq_limit cfg) (fourier_att_prior_freq_limit_softness cfg)
        (att_prior_grad_smooth_sigma cfg) = Inr a \<and> att_losses st' = att_losses st @ [a]"
      by blast
  }
  {
    fix w :: real
    show "(computes_input_grads w = (\<not> py_not w)) = (0 \<le> w)"
      by (auto simp: computes_input_grads_def py_not_def)
  }
qed

theorem negative_weight_reaches_prior_witness:
  "att_prior_loss_weight
     \<lparr>counts_loss_weight = 20, att_prior_loss_weight = - 1,
      att_prior_loss_weight_anneal_type = None, att_prior_loss_weight_anneal_speed = None,
      att_prior_grad_smooth_sigma = 3, fourier_att_prior_freq_limit = 200,
      fourier_att_prior_freq_limit_softness = Some (1 / 5), att_prior_loss_only = False,
      num_tasks = 1, controls = None, batch_size = 2, revcomp = False\<rparr> < 0
   \<and> run_batch
     \<lparr>counts_loss_weight = 20, att_prior_loss_weight = - 1,
      att_prior_loss_weight_anneal_type = None, att_prior_loss_weight_anneal_speed = None,
      att_prior_grad_smooth_sigma = 3, fourier_att_prior_freq_limit = 200,
      fourier_att_prior_freq_limit_softness = Some (1 / 5), att_prior_loss_only = False,
      num_tasks = 1, controls = None, batch_size = 2, revcomp = False\<rparr>
     \<lparr>mul_input = (\<lambda>g x. g * x), sum_positions = (\<lambda>y. y),
      profile_logits_to_log_probs = (\<lambda>y. y)\<rparr>
     ''eval'' None False 0
     \<lparr>net = \<lparr>forward = (\<lambda>xs c. (map (\<lambda>x. [x]) xs, map (\<lambda>x. [x]) xs)),
             saliency_grads = (\<lambda>xs c. xs),
             correctness_loss = (\<lambda>t p c w. (3 + w * 2, 3, 2)),
             fourier_att_prior_loss =
               (\<lambda>s g l c sg. case g of None \<Rightarrow> Inl TypeError | Some v \<Rightarrow> Inr 1)\<rparr>,
      batch_losses = [], corr_losses = [], att_losses = [], prof_losses = [],
      count_losses = [], arrays = None\<rparr>
     \<lparr>input_seqs = [1::nat, 0], profiles = [[5::nat], [7]], statuses = [1, 0],
      coords = [10::nat, 20]\<rparr>
     = Inl TypeError"
proof -
  let ?cfg = "\<lparr>counts_loss_weight = 20, att_prior_loss_weight = - 1,
      att_prior_loss_weight_anneal_type = None, att_prior_loss_weight_anneal_speed = None,
      att_prior_grad_smooth_sigma = 3, fourier_att_prior_freq_limit = 200,
      fourier_att_prior_freq_limit_softness = Some (1 / 5), att_prior_loss_only = False,
      num_tasks = 1, controls = None, batch_size = 2, revcomp = False\<rparr>"
  let ?st = "\<lparr>net = \<lparr>forward = (\<lambda>(xs::nat list) (c::nat list list option).
                 (map (\<lambda>x. [x]) xs, map (\<lambda>x. [x]) xs)),
             saliency_grads = (\<lambda>xs c. xs),
             correctness_loss = (\<lambda>t p c w. (3 + w * 2, 3, 2)),
             fourier_att_prior_loss =
               (\<lambda>s g l c sg. case g of None \<Rightarrow> Inl TypeError | Some v \<Rightarrow> Inr 1)\<rparr>,
      batch_losses = [], corr_losses = [], att_losses = [], prof_losses = [],
      count_losses = [], arrays = (None :: (nat, nat, nat, nat) collected option)\<rparr>"
  have neg: "att_prior_loss_weight ?cfg < 0" by simp
  have r: "fourier_att_prior_loss (net ?st) None None (fourier_att_prior_freq_limit ?cfg)
            (fourier_att_prior_freq_limit_softness ?cfg) (att_prior_grad_smooth_sigma ?cfg)
            = Inl TypeError" by simp
  have m: "\<not> (''eval'' = ''train'' \<and> (None :: ((nat, nat, nat) profile_model
      \<Rightarrow> (nat, nat, nat) batch \<Rightarrow> (nat, nat, nat) profile_model) option) = None)" by simp
  from negative_weight_reaches_prior[OF neg, where st = ?st and mode = "''eval''"
      and optimizer = None]
  have "run_batch ?cfg
     \<lparr>mul_input = (\<lambda>g x. g * x), sum_positions = (\<lambda>y. y),
      profile_logits_to_log_probs = (\<lambda>y. y)\<rparr>
     ''eval'' None False 0 ?st
     \<lparr>input_seqs = [1::nat, 0], profiles = [[5::nat], [7]], statuses = [1, 0],
      coords = [10::nat, 20]\<rparr> = Inl TypeError"
    using m r by blast
  with neg show ?thesis by simp
qed

lemma np_set_rows_length:
  "np_set_rows a start stop rows = Inr a' \<Longrightarrow> length a' = length a"
  by (auto simp: np_set_rows_def Let_def split: if_splits)

lemma collect_batch_invariant:
  assumes "collect_batch cfg ops acc seqs logits counts tf grads cs = Inr acc'"
    and "buffers_of_length n acc"
  shows "buffers_of_length n acc' \<and> num_samples_seen acc' = num_samples_seen acc + length tf"
  using assms unfolding collect_batch_def Let_def buffers_of_length_def
  by (auto dest!: and_then_eq_Inr dest: np_set_rows_length split: if_splits option.splits)

lemma run_batch_arrays:
  assumes "run_batch cfg ops mode optimizer return_data epoch_num st b = Inr st'"
    and "arrays st = Some acc" and "buffers_of_length n acc"
  shows "\<exists>acc'. arrays st' = Some acc' \<and> buffers_of_length n acc'
           \<and> num_samples_seen acc' = num_samples_seen acc + length (profiles b)"
proof -
  let ?tf = "if controls cfg \<noteq> None then map (take (num_tasks cfg)) (profiles b)
             else profiles b"
  have len: "length ?tf = length (profiles b)" by simp
  from assms(1) assms(2) obtain acc' seqs logits counts grads cs where
    c: "collect_batch cfg ops acc seqs logits counts ?tf grads cs = Inr acc'"
    and a: "arrays st' = Some acc'"
    unfolding run_batch_def Let_def
    by (auto dest!: and_then_eq_Inr split: if_splits prod.splits)
  from collect_batch_invariant[OF c assms(3)] a len show ?thesis by auto
qed

lemma batch_loop_arrays:
  "batch_loop cfg ops mode optimizer return_data epoch_num st bs = Inr st' \<Longrightarrow>
   arrays st = Some acc \<Longrightarrow> buffers_of_length n acc \<Longrightarrow>
   \<exists>acc'. arrays st' = Some acc' \<and> buffers_of_length n acc'
          \<and> num_samples_seen acc' = num_samples_seen acc + total_examples bs"
proof (induction bs arbitrary: st acc)
  case Nil
  then show ?case by (simp add: total_examples_def)
next
  case (Cons b bs)
  from Cons.prems(1) obtain st1 where
    b: "run_batch cfg ops mode optimizer return_data epoch_num st b = Inr st1"
    and r: "batch_loop cfg ops mode optimizer return_data epoch_num st1 bs = Inr st'"
    by (auto dest!: and_then_eq_Inr)
  from run_batch_arrays[OF b Cons.prems(2) Cons.prems(3)] obtain acc1 where
    a1: "arrays st1 = Some acc1" and b1: "buffers_of_length n acc1"
    and s1: "num_samples_seen acc1 = num_samples_seen acc + length (profiles b)" by blast
  from Cons.IH[OF r a1 b1] obtain acc' where
    "arrays st' = Some acc'" "buffers_of_length n acc'"
    "num_samples_seen acc' = num_samples_seen acc1 + total_examples bs" by blast
  with s1 show ?case by (simp add: total_examples_def)
qed

lemma allocate_buffers:
  "allocate cfg nb = Inr acc \<Longrightarrow>
     buffers_of_length (nat (num_samples_exp cfg nb)) acc \<and> num_samples_seen acc = 0"
  by (auto simp: allocate_def Let_def buffers_of_length_def split: if_splits)

lemma run_epoch_lengths:
  assumes "run_epoch cfg ops loader mode model epoch_num optimizer True = Inr st"
  shows "\<exists>acc. arrays st = Some acc
     \<and> num_samples_seen acc = total_examples (batches loader)
     \<and> buffers_of_length
          (min (total_examples (batches loader)) (nat (num_samples_exp cfg (dataset_len loader))))
          acc"
proof -
  from assms obtain acc0 st1 where
    al: "allocate cfg (dataset_len loader) = Inr (acc0 :: ('a, 'b, 'c, 'd) collected)"
    and lp: "batch_loop cfg ops mode optimizer True epoch_num
               \<lparr>net = model, batch_losses = [], corr_losses = [], att_losses = [],
                prof_losses = [], count_losses = [], arrays = Some acc0\<rparr>
               (batches loader) = Inr st1"
    and st: "st = st1\<lparr>arrays := map_option truncate_arrays (arrays st1)\<rparr>"
    unfolding run_epoch_def
    by (auto dest!: and_then_eq_Inr split: if_splits)
  from allocate_buffers[OF al] have b0: "buffers_of_length
      (nat (num_samples_exp cfg (dataset_len loader))) acc0" and z: "num_samples_seen acc0 = 0"
    by simp_all
  from batch_loop_arrays[OF lp _ b0] obtain acc1 where
    a1: "arrays st1 = Some acc1"
    and b1: "buffers_of_length (nat (num_samples_exp cfg (dataset_len loader))) acc1"
    and s1: "num_samples_seen acc1 = num_samples_seen acc0 + total_examples (batches loader)"
    by auto
  from st a1 have "arrays st = Some (truncate_arrays acc1)" by simp
  moreover from s1 z have "num_samples_seen (truncate_arrays acc1)
      = total_examples (batches loader)" by (simp add: truncate_arrays_def)
  moreover from b1 s1 z have "buffers_of_length
      (min (total_examples (batches loader)) (nat (num_samples_exp cfg (dataset_len loader))))
      (truncate_arrays acc1)"
    by (simp add: truncate_arrays_def buffers_of_length_def)
  ultimately show ?thesis by blast
qed

text \<open>
  C7: for every run of \<open>run_epoch\<close> with \<open>return_data\<close> set, over any sequence of
  batches whose total number of examples is smaller than the preallocated capacity
  (\<open>num_batches * batch_size\<close>, doubled if \<open>revcomp\<close>), every returned data array
  (predicted and true profiles and counts, input sequences, input gradients,
  coordinates) has a first dimension equal to the number of examples seen across all
  batches, not to the capacity.
\<close>

theorem returned_arrays_hold_examples_seen:
  assumes "run_epoch cfg ops loader mode model epoch_num optimizer True = Inr st"
    and "int (total_examples (batches loader)) < num_samples_exp cfg (dataset_len loader)"
  shows "\<exists>acc. arrays st = Some acc
     \<and> num_samples_seen acc = total_examples (batches loader)
     \<and> length (all_log_pred_profs acc) = total_examples (batches loader)
     \<and> length (all_log_pred_counts acc) = total_examples (batches loader)
     \<and> length (all_true_profs acc) = total_examples (batches loader)
     \<and> length (all_true_counts acc) = total_examples (batches loader)
     \<and> length (all_input_seqs acc) = total_examples (batches loader)
     \<and> length (all_input_grads acc) = total_examples (batches loader)
     \<and> length (all_coords acc) = total_examples (batches loader)"
proof -
  from assms(2) have "min (total_examples (batches loader))
      (nat (num_samples_exp cfg (dataset_len loader))) = total_examples (batches loader)"
    by simp
  with run_epoch_lengths[OF assms(1)] show ?thesis
    by (auto simp: buffers_of_length_def)
qed

theorem returned_arrays_hold_examples_seen_witness:
  "num_samples_exp
     \<lparr>counts_loss_weight = 20, att_prior_loss_weight = 0,
      att_prior_loss_weight_anneal_type = None, att_prior_loss_weight_anneal_speed = None,
      att_prior_grad_smooth_sigma = 3, fourier_att_prior_freq_limit = 200,
      fourier_att_prior_freq_limit_softness = Some (1 / 5), att_prior_loss_only = False,
      num_tasks = 1, controls = None, batch_size = 2, revcomp = False\<rparr> 2 = 4
   \<and> total_examples
        [\<lparr>input_seqs = [1::nat, 0], profiles = [[5::nat], [7]], statuses = [1, 0],
          coords = [10::nat, 20]\<rparr>,
         \<lparr>input_seqs = [1], profiles = [[9]], statuses = [1], coords = [30]\<rparr>] = 3
   \<and> (\<exists>st acc.
        run_epoch
          \<lparr>counts_loss_weight = 20, att_prior_loss_weight = 0,
           att_prior_loss_weight_anneal_type = None, att_prior_loss_weight_anneal_speed = None,
           att_prior_grad_smooth_sigma = 3, fourier_att_prior_freq_limit = 200,
           fourier_att_prior_freq_limit_softness = Some (1 / 5), att_prior_loss_only = False,
           num_tasks = 1, controls = None, batch_size = 2, revcomp = False\<rparr>
          \<lparr>mul_input = (\<lambda>g x. g * x), sum_positions = (\<lambda>y. y),
           profile_logits_to_log_probs = (\<lambda>y. y)\<rparr>
          \<lparr>dataset_len = 2, batches =
            [\<lparr>input_seqs = [1::nat, 0], profiles = [[5::nat], [7]], statuses = [1, 0],
              coords = [10::nat, 20]\<rparr>,
             \<lparr>input_seqs = [1], profiles = [[9]], statuses = [1], coords = [30]\<rparr>]\<rparr>
          ''eval''
          \<lparr>forward = (\<lambda>xs c. (map (\<lambda>x. [x]) xs, map (\<lambda>x. [x]) xs)),
           saliency_grads = (\<lambda>xs c. xs),
           correctness_loss = (\<lambda>t p c w. (3 + w * 2, 3, 2)),
           fourier_att_prior_loss = (\<lambda>s g l c sg. Inl TypeError)\<rparr>
          0 None True = Inr st
        \<and> arrays st = Some acc
        \<and> num_samples_seen acc = 3
        \<and> length (all_log_pred_profs acc) = 3 \<and> length (all_log_pred_counts acc) = 3
        \<and> length (all_true_profs acc) = 3 \<and> length (all_true_counts acc) = 3
        \<and> length (all_input_seqs acc) = 3 \<and> length (all_input_grads acc) = 3
        \<and> length (all_coords acc) = 3)"
proof -
  let ?cfg = "\<lparr>counts_loss_weight = 20, att_prior_loss_weight = 0,
      att_prior_loss_weight_anneal_type = None, att_prior_loss_weight_anneal_speed = None,
      att_prior_grad_smooth_sigma = 3, fourier_att_prior_freq_limit = 200,
      fourier_att_prior_freq_limit_softness = Some (1 / 5), att_prior_loss_only = False,
      num_tasks = 1, controls = None, batch_size = 2, revcomp = False\<rparr>"
  let ?ops = "\<lparr>mul_input = (\<lambda>(g::nat) x. g * x), sum_positions = (\<lambda>y::nat. y),
           profile_logits_to_log_probs = (\<lambda>y::nat. y)\<rparr>"
  let ?bs = "[\<lparr>input_seqs = [1::nat, 0], profiles = [[5::nat], [7]], statuses = [1, 0],
              coords = [10::nat, 20]\<rparr>,
             \<lparr>input_seqs = [1], profiles = [[9]], statuses = [1], coords = [30]\<rparr>]"
  let ?loader = "\<lparr>dataset_len = 2, batches = ?bs\<rparr>"
  let ?m = "\<lparr>forward = (\<lambda>(xs::nat list) (c::nat list list option).
              (map (\<lambda>x. [x]) xs, map (\<lambda>x. [x]) xs)),
           saliency_grads = (\<lambda>xs c. xs),
           correctness_loss = (\<lambda>t p c w. (3 + w * 2, 3, 2)),
           fourier_att_prior_loss = (\<lambda>s g l c sg. Inl TypeError)\<rparr>"
  have cap: "num_samples_exp ?cfg 2 = 4" by (simp add: num_samples_exp_def)
  have tot: "total_examples ?bs = 3" by (simp add: total_examples_def)
  have "\<exists>st. run_epoch ?cfg ?ops ?loader ''eval'' ?m 0 None True = Inr st"
    by (simp add: run_epoch_def allocate_def num_samples_exp_def run_batch_def
        model_loss_def py_not_def computes_input_grads_def loss_inputs_def
        collect_batch_def np_set_rows_def and_then_def Let_def eval_nat_numeral)
  then obtain st where run: "run_epoch ?cfg ?ops ?loader ''eval'' ?m 0 None True = Inr st" ..
  have lt: "int (total_examples (batches ?loader)) < num_samples_exp ?cfg (dataset_len ?loader)"
    using cap tot by simp
  from returned_arrays_hold_examples_seen[OF run lt] tot cap run show ?thesis by auto
qed

section \<open>Scale invariance of the attribution-prior loss\<close>

lemma seq_at_scale: "seq_at (map (\<lambda>v. k * v) x) j = k * seq_at x j"
proof (cases "0 \<le> j \<and> j < int (length x)")
  case True
  then have "nat j < length x" by (auto simp: nat_less_iff)
  with True show ?thesis by (simp add: seq_at_def)
next
  case False
  then show ?thesis by (auto simp: seq_at_def)
qed

lemma smooth_scale:
  "smooth kern sigma (map (\<lambda>v. k * v) x) = map (\<lambda>v. k * v) (smooth kern sigma x)"
proof (cases "sigma = 0")
  case True
  then show ?thesis by (simp add: smooth_def)
next
  case False
  have "\<And>i. sum_list (map (\<lambda>d. kern d * (k * seq_at x (int i + d))) [- sigma..sigma])
      = k * sum_list (map (\<lambda>d. kern d * seq_at x (int i + d)) [- sigma..sigma])"
  proof -
    fix i
    have "(\<lambda>d. kern d * (k * seq_at x (int i + d)))
        = (\<lambda>d. k * (kern d * seq_at x (int i + d)))" by (rule ext) simp
    then show "sum_list (map (\<lambda>d. kern d * (k * seq_at x (int i + d))) [- sigma..sigma])
      = k * sum_list (map (\<lambda>d. kern d * seq_at x (int i + d)) [- sigma..sigma])"
      by (simp add: sum_list_const_mult)
  qed
  with False show ?thesis by (simp add: smooth_def seq_at_scale)
qed

lemma energy_scale: "energy (map (\<lambda>v. k * v) x) = (k * k) * energy x"
proof -
  have "(\<lambda>v. k * v * (k * v)) = (\<lambda>v. (k * k) * (v * v))" by (rule ext) simp
  then show ?thesis by (simp add: energy_def comp_def sum_list_const_mult)
qed

lemma unit_energy_scale:
  assumes "0 < k"
  shows "unit_energy (map (\<lambda>v. k * v) x) = unit_energy x"
proof (cases "energy x = 0")
  case True
  then show ?thesis by (simp add: unit_energy_def energy_scale)
next
  case False
  from assms have k: "k \<noteq> 0" by simp
  have sq: "sqrt ((k * k) * energy x) = k * sqrt (energy x)"
    using assms by (simp add: real_sqrt_mult)
  have "\<And>v. k * v / (k * sqrt (energy x)) = v / sqrt (energy x)" using k by simp
  with False k sq show ?thesis by (simp add: unit_energy_def energy_scale comp_def)
qed

lemma example_penalty_scale:
  "0 < k \<Longrightarrow> example_penalty kern fl soft sigma (map (\<lambda>v. k * v) g)
     = example_penalty kern fl soft sigma g"
  by (simp add: example_penalty_def smooth_scale unit_energy_scale)

lemma positive_penalties_scale:
  assumes "0 < k"
  shows "positive_penalties kern status (scale_grads k gs) fl soft sigma
     = positive_penalties kern status gs fl soft sigma"
proof -
  have z: "zip status (map (map (\<lambda>v. k * v)) gs)
      = map (\<lambda>(s, g). (s, map (\<lambda>v. k * v) g)) (zip status gs)"
    by (simp add: zip_map2)
  have f: "filter (\<lambda>(s, g). s = 1) (map (\<lambda>(s, g). (s, map (\<lambda>v. k * v) g)) (zip status gs))
      = map (\<lambda>(s, g). (s, map (\<lambda>v. k * v) g)) (filter (\<lambda>(s, g). s = 1) (zip status gs))"
  proof -
    have "(\<lambda>(s::int, g::real list). s = 1) \<circ> (\<lambda>(s, g). (s, map (\<lambda>v. k * v) g))
        = (\<lambda>(s, g). s = 1)" by (auto simp: fun_eq_iff)
    then show ?thesis by (simp only: filter_map)
  qed
  show ?thesis
    unfolding positive_penalties_def scale_grads_def z f
    using assms by (simp add: comp_def case_prod_beta example_penalty_scale)
qed

text \<open>
  C8: for every batch and every positive constant \<open>k\<close>, scaling all input-gradient
  values handed to the attribution-prior loss by \<open>k\<close> leaves the value of the loss
  unchanged: smoothing commutes with the scaling, and the normalisation of each
  example's saliency to unit energy removes it before the frequency energy is taken.
  An example of energy zero gives NaN before and after the scaling.
\<close>

theorem prior_loss_scale_invariant:
  "0 < k \<Longrightarrow>
     fourier_att_prior_loss_spec kern status (scale_grads k input_grads) freq_limit softness sigma
       = fourier_att_prior_loss_spec kern status input_grads freq_limit softness sigma"
  by (simp add: fourier_att_prior_loss_spec_def positive_penalties_scale)

theorem prior_loss_scale_invariant_witness:
  "(0::real) < 2
   \<and> scale_grads 2 [[1, 2, 0, 1], [3, 4, 1, 1]] = [[2, 4, 0, 2], [6, 8, 2, 2]]
   \<and> fourier_att_prior_loss_spec (\<lambda>d. 1 / 3) [1, 0] [[2, 4, 0, 2], [6, 8, 2, 2]] 1 None 1
     = fourier_att_prior_loss_spec (\<lambda>d. 1 / 3) [1, 0] [[1, 2, 0, 1], [3, 4, 1, 1]] 1 None 1"
proof -
  have h: "(0::real) < 2" by simp
  have s: "scale_grads 2 [[1, 2, 0, 1], [3, 4, 1, 1]] = [[2, 4, 0, 2], [6, 8, 2, 2]]"
    by (simp add: scale_grads_def)
  from prior_loss_scale_invariant[OF h, where kern = "\<lambda>d. 1 / 3" and status = "[1, 0]"
      and input_grads = "[[1, 2, 0, 1], [3, 4, 1, 1]]" and freq_limit = 1
      and softness = None and sigma = 1]
  show ?thesis using h s by simp
qed

section \<open>\<open>run_epoch\<close>: runs that return, and the capacity\<close>

text \<open>
  Beyond the capacity the arrays lose rows: a batch of a single example is broadcast
  into the empty slice past the end of the arrays, and the truncation to the number of
  examples seen leaves the arrays at their capacity.
\<close>

lemma beyond_capacity_rows_are_lost:
  "\<exists>st acc.
     run_epoch
       \<lparr>counts_loss_weight = 20, att_prior_loss_weight = 0,
        att_prior_loss_weight_anneal_type = None, att_prior_loss_weight_anneal_speed = None,
        att_prior_grad_smooth_sigma = 3, fourier_att_prior_freq_limit = 200,
        fourier_att_prior_freq_limit_softness = Some (1 / 5), att_prior_loss_only = False,
        num_tasks = 1, controls = None, batch_size = 1, revcomp = False\<rparr>
       \<lparr>mul_input = (\<lambda>g x. g * x), sum_positions = (\<lambda>y. y),
        profile_logits_to_log_probs = (\<lambda>y. y)\<rparr>
       \<lparr>dataset_len = 1, batches =
         [\<lparr>input_seqs = [1::nat], profiles = [[5::nat]], statuses = [1], coords = [10::nat]\<rparr>,
          \<lparr>input_seqs = [0], profiles = [[9]], statuses = [0], coords = [30]\<rparr>]\<rparr>
       ''eval''
       \<lparr>forward = (\<lambda>xs c. (map (\<lambda>x. [x]) xs, map (\<lambda>x. [x]) xs)),
        saliency_grads = (\<lambda>xs c. xs),
        correctness_loss = (\<lambda>t p c w. (3 + w * 2, 3, 2)),
        fourier_att_prior_loss = (\<lambda>s g l c sg. Inl TypeError)\<rparr>
       0 None True = Inr st
     \<and> arrays st = Some acc \<and> num_samples_seen acc = 2
     \<and> all_coords acc = [Some 10] \<and> all_input_seqs acc = [Some 1]"
  by (simp add: run_epoch_def allocate_def num_samples_exp_def run_batch_def
        model_loss_def py_not_def computes_input_grads_def loss_inputs_def
        collect_batch_def np_set_rows_def and_then_def Let_def truncate_arrays_def
        eval_nat_numeral)

lemma np_set_rows_fits:
  assumes "start + length rows \<le> length a"
  shows "np_set_rows a start (start + length rows) rows
           = Inr (take start a @ map Some rows @ drop (start + length rows) a)"
proof -
  from assms have "min start (length a) = start"
    and "max start (min (start + length rows) (length a)) = start + length rows" by simp_all
  then show ?thesis by (simp add: np_set_rows_def Let_def)
qed

lemma np_set_rows_returns:
  assumes "length a = cap" and "start + n \<le> cap" and "length rows = n"
  shows "\<exists>a'. np_set_rows a start (start + n) rows = Inr a'"
proof -
  from assms have "start + length rows \<le> length a" by simp
  from np_set_rows_fits[OF this] assms(3) show ?thesis by simp
qed

text \<open>
  An evaluation run with a zero attribution-prior weight over batches that agree on
  their numbers of examples, and that fit the capacity, returns.
\<close>

lemma collect_batch_returns:
  assumes "buffers_of_length cap acc" and "num_samples_seen acc + length tf \<le> cap"
    and "length seqs = length tf" and "length logits = length tf"
    and "length counts = length tf" and "length cs = length tf"
    and "py_not (att_prior_loss_weight cfg)"
  shows "\<exists>acc'. collect_batch cfg ops acc seqs logits counts tf None cs = Inr acc'"
proof -
  let ?s = "num_samples_seen acc"
  note fit = np_set_rows_returns[where cap = cap and start = "?s" and n = "length tf", OF _ assms(2)]
  from assms(1) have b: "length (all_log_pred_profs acc) = cap"
    "length (all_log_pred_counts acc) = cap" "length (all_true_profs acc) = cap"
    "length (all_true_counts acc) = cap" "length (all_input_seqs acc) = cap"
    "length (all_coords acc) = cap" by (simp_all add: buffers_of_length_def)
  from fit[OF b(1), of "map (map (profile_logits_to_log_probs ops)) logits"] assms(4)
  obtain a1 where s1: "np_set_rows (all_log_pred_profs acc) ?s (?s + length tf)
      (map (map (profile_logits_to_log_probs ops)) logits) = Inr a1" by auto
  from fit[OF b(2), of counts] assms(5)
  obtain a2 where s2: "np_set_rows (all_log_pred_counts acc) ?s (?s + length tf) counts = Inr a2"
    by auto
  from fit[OF b(3), of tf]
  obtain a3 where s3: "np_set_rows (all_true_profs acc) ?s (?s + length tf) tf = Inr a3"
    by auto
  from fit[OF b(4), of "map (map (sum_positions ops)) tf"]
  obtain a4 where s4: "np_set_rows (all_true_counts acc) ?s (?s + length tf)
      (map (map (sum_positions ops)) tf) = Inr a4" by auto
  from fit[OF b(5), of seqs] assms(3)
  obtain a5 where s5: "np_set_rows (all_input_seqs acc) ?s (?s + length tf) seqs = Inr a5"
    by auto
  from fit[OF b(6), of cs] assms(6)
  obtain a7 where s7: "np_set_rows (all_coords acc) ?s (?s + length tf) cs = Inr a7"
    by auto
  show ?thesis
    unfolding collect_batch_def Let_def
    using s1 s2 s3 s4 s5 s7 assms(7) by (simp add: and_then_def)
qed

lemma model_loss_returns_zero_weight:
  "py_not (att_prior_loss_weight cfg) \<Longrightarrow>
     \<exists>r. model_loss cfg model tp lp lc epoch_num input_grads status = Inr r"
  by (simp add: model_loss_def split: prod.splits)

lemma run_batch_returns:
  assumes w: "att_prior_loss_weight cfg = 0" and m: "mode \<noteq> ''train''"
    and a: "arrays st = Some acc" and bl: "buffers_of_length cap acc"
    and fits: "num_samples_seen acc + length (profiles b) \<le> cap"
    and ws: "well_shaped cfg (net st) b"
  shows "\<exists>st'. run_batch cfg ops mode optimizer True epoch_num st b = Inr st'
           \<and> net st' = net st"
proof -
  let ?tf = "if controls cfg \<noteq> None then map (take (num_tasks cfg)) (profiles b)
             else profiles b"
  let ?cp = "if controls cfg \<noteq> None then Some (map (drop (num_tasks cfg)) (profiles b))
             else None"
  let ?preds = "forward (net st) (input_seqs b) ?cp"
  have pn: "py_not (att_prior_loss_weight cfg)" using w by (simp add: py_not_def)
  have ng: "\<not> computes_input_grads (att_prior_loss_weight cfg)"
    using w by (simp add: computes_input_grads_def)
  have len: "length ?tf = length (profiles b)" by simp
  from ws have l1: "length (input_seqs b) = length ?tf" and l2: "length (coords b) = length ?tf"
    and l3: "length (fst ?preds) = length ?tf" and l4: "length (snd ?preds) = length ?tf"
    by (simp_all add: well_shaped_def Let_def)
  from fits len have fits': "num_samples_seen acc + length ?tf \<le> cap" by simp
  from collect_batch_returns[OF bl fits' l1 l3 l4 l2 pn, of ops]
  obtain acc' where c: "collect_batch cfg ops acc (input_seqs b) (fst ?preds) (snd ?preds)
      ?tf None (coords b) = Inr acc'" by blast
  from model_loss_returns_zero_weight[OF pn]
  obtain r where ml: "model_loss cfg (net st) ?tf (fst ?preds) (snd ?preds) epoch_num
      (fst (loss_inputs cfg ops (net st) (input_seqs b) ?cp (statuses b)))
      (snd (loss_inputs cfg ops (net st) (input_seqs b) ?cp (statuses b))) = Inr r" by blast
  obtain loss corr_loss att_loss prof_loss count_loss
    where r: "r = (loss, (corr_loss, att_loss), (prof_loss, count_loss))" by (cases r) auto
  show ?thesis
    unfolding run_batch_def Let_def
    using m a ng c ml r by (simp add: and_then_def)
qed

lemma batch_loop_returns:
  "att_prior_loss_weight cfg = 0 \<Longrightarrow> mode \<noteq> ''train'' \<Longrightarrow> arrays st = Some acc \<Longrightarrow>
   buffers_of_length cap acc \<Longrightarrow> num_samples_seen acc + total_examples bs \<le> cap \<Longrightarrow>
   \<forall>b \<in> set bs. well_shaped cfg (net st) b \<Longrightarrow>
   \<exists>st'. batch_loop cfg ops mode optimizer True epoch_num st bs = Inr st'"
proof (induction bs arbitrary: st acc)
  case Nil
  then show ?case by simp
next
  case (Cons b bs)
  from Cons.prems(5) have fits: "num_samples_seen acc + length (profiles b) \<le> cap"
    by (simp add: total_examples_def)
  from Cons.prems(6) have wsb: "well_shaped cfg (net st) b" by simp
  from run_batch_returns[OF Cons.prems(1) Cons.prems(2) Cons.prems(3) Cons.prems(4) fits wsb]
  obtain st1 where rb: "run_batch cfg ops mode optimizer True epoch_num st b = Inr st1"
    and n1: "net st1 = net st" by blast
  from run_batch_arrays[OF rb Cons.prems(3) Cons.prems(4)] obtain acc1 where
    a1: "arrays st1 = Some acc1" and b1: "buffers_of_length cap acc1"
    and s1: "num_samples_seen acc1 = num_samples_seen acc + length (profiles b)" by blast
  from s1 Cons.prems(5) have f1: "num_samples_seen acc1 + total_examples bs \<le> cap"
    by (simp add: total_examples_def)
  from Cons.prems(6) n1 have w1: "\<forall>b \<in> set bs. well_shaped cfg (net st1) b" by simp
  from Cons.IH[OF Cons.prems(1) Cons.prems(2) a1 b1 f1 w1]
  obtain st' where "batch_loop cfg ops mode optimizer True epoch_num st1 bs = Inr st'" by blast
  with rb show ?case by (simp add: and_then_def)
qed

lemma run_epoch_returns:
  fixes model :: "('x, 'y, 'k) profile_model" and loader :: "('x, 'y, 'c) data_loader"
  assumes "att_prior_loss_weight cfg = 0"
    and "int (total_examples (batches loader)) \<le> num_samples_exp cfg (dataset_len loader)"
    and "\<forall>b \<in> set (batches loader). well_shaped cfg model b"
  shows "\<exists>st. run_epoch cfg ops loader ''eval'' model epoch_num None True = Inr st"
proof -
  let ?cap = "nat (num_samples_exp cfg (dataset_len loader))"
  from assms(2) have nonneg: "\<not> num_samples_exp cfg (dataset_len loader) < 0" by simp
  then obtain acc0 :: "('x, 'y, 'k, 'c) collected" where
    al: "allocate cfg (dataset_len loader) = Inr acc0"
    by (simp add: allocate_def Let_def)
  from allocate_buffers[OF al] have b0: "buffers_of_length ?cap acc0"
    and z: "num_samples_seen acc0 = 0" by simp_all
  let ?st0 = "\<lparr>net = model, batch_losses = [], corr_losses = [], att_losses = [],
      prof_losses = [], count_losses = [], arrays = Some acc0\<rparr>"
  from assms(2) z have fits: "num_samples_seen acc0 + total_examples (batches loader) \<le> ?cap"
    by simp
  have m: "''eval'' \<noteq> ''train''" by simp
  from batch_loop_returns[OF assms(1) m _ b0 fits, of ?st0 ops None epoch_num] assms(3)
  obtain st' where "batch_loop cfg ops ''eval'' None True epoch_num ?st0 (batches loader)
      = Inr st'" by auto
  with al show ?thesis by (simp add: run_epoch_def and_then_def)
qed

end
